theory Spec2Isabelle
  imports Complex_Main "HOL-Library.Word"
begin

unbundle bit_operations_syntax

section \<open>JavaScript values\<close>

text \<open>
  A JavaScript string is a sequence of UTF-16 code units, a \<open>Uint8Array\<close> element is an
  8-bit word and an \<open>Int16Array\<close> element a 16-bit word read in two's complement.
  Whole numbers of the program (chapter numbers, font sizes, lengths) are \<open>int\<close> or
  \<open>nat\<close>; the one quotient the program forms, \<open>dataInt16.length / numChannels\<close>, is
  a rational number.
\<close>

type_synonym jsstring = "16 word list"
type_synonym byte = "8 word"

text \<open>
  Everything that can be thrown or rejected: the two \<open>Error\<close> messages of the current
  service module, the message of the older one, an opaque rejection of the generative-AI
  client, and the DOM exceptions of \<open>atob\<close>, the typed arrays and the audio nodes.
\<close>

datatype error =
    API_KEY_MISSING
  | AUDIO_DATA_EMPTY
  | Audio_generation_failed
  | CollaboratorError nat
  | InvalidCharacterError
  | RangeError
  | NotSupportedError
  | IndexSizeError
  | InvalidStateError
  | TypeError

text \<open>\<open>!s\<close> on an optional string: \<open>undefined\<close> and the empty string are falsy.\<close>

definition falsy :: "jsstring option \<Rightarrow> bool" where
  "falsy v = (case v of None \<Rightarrow> True | Some s \<Rightarrow> s = [])"

text \<open>\<open>v || d\<close> on an optional string.\<close>

definition or_else :: "jsstring option \<Rightarrow> jsstring \<Rightarrow> jsstring" where
  "or_else v d = (case v of None \<Rightarrow> d | Some s \<Rightarrow> if s = [] then d else s)"

text \<open>\<open>xs?.[0]\<close>: \<open>undefined\<close> when \<open>xs\<close> is \<open>undefined\<close> or empty.\<close>

definition first_of :: "'a list option \<Rightarrow> 'a option" where
  "first_of xs = (case xs of None \<Rightarrow> None | Some [] \<Rightarrow> None | Some (x # _) \<Rightarrow> Some x)"

text \<open>
  Typed arrays (\<open>Uint8Array\<close>, \<open>Int16Array\<close>, \<open>Float32Array\<close>) have a fixed length: a
  write at an index out of range is ignored, a read there gives \<open>undefined\<close>.
\<close>

definition typed_set :: "'a list \<Rightarrow> nat \<Rightarrow> 'a \<Rightarrow> 'a list" where
  "typed_set xs i v = (if i < length xs then xs[i := v] else xs)"

definition typed_get :: "'a list \<Rightarrow> nat \<Rightarrow> 'a option" where
  "typed_get xs i = (if i < length xs then Some (xs ! i) else None)"

section \<open>The generative-AI service module\<close>

subsection \<open>The collaborator\<close>

text \<open>
  The response of \<open>ai.models.generateContent\<close>, as far as the program reads it: the
  \<open>text\<close> accessor and the path \<open>candidates[0].content.parts[0].inlineData.data\<close>,
  every step of which may be \<open>undefined\<close>.
\<close>

datatype blob = Blob (blob_data: "jsstring option")
datatype part = Part (part_text: "jsstring option") (inlineData: "blob option")
datatype content = Content (parts: "part list option")
datatype candidate = Candidate (content: "content option")

record response =
  response_text :: "jsstring option"
  candidates :: "candidate list option"

text \<open>
  The two requests the program sends: the prompt for the text of a chapter of a book
  (model \<open>gemini-3-flash-preview\<close>, temperature 0.1) and the prompt to read a text aloud
  (model \<open>gemini-2.5-flash-preview-tts\<close>, audio modality, voice Kore).
\<close>

datatype request = ChapterPrompt jsstring int | SpeechPrompt jsstring

text \<open>
  \<open>new GoogleGenAI({ apiKey })\<close> followed by \<open>models.generateContent\<close>: the library and
  the network behind it are a parameter of the model, a function of the key and the
  request that either rejects or resolves with a response.
\<close>

type_synonym collaborator = "jsstring option \<Rightarrow> request \<Rightarrow> error + response"

subsection \<open>The current module (with \<open>getAiClient\<close>)\<close>

definition str_undefined :: jsstring where
  "str_undefined = [0x75, 0x6E, 0x64, 0x65, 0x66, 0x69, 0x6E, 0x65, 0x64]"

definition getAiClient :: "jsstring option \<Rightarrow> collaborator \<Rightarrow> error + (request \<Rightarrow> error + response)" where
  "getAiClient apiKey genai =
     (if falsy apiKey \<or> apiKey = Some [] \<or> apiKey = Some str_undefined
      then Inl API_KEY_MISSING
      else Inr (genai apiKey))"

text \<open>The two strings \<open>fetchChapterText\<close> falls back to, as UTF-16 code units.\<close>

definition msg_no_text :: jsstring where
  "msg_no_text = [0x7121, 0x6CD5, 0x7372, 0x53D6, 0x7D93, 0x6587, 0x3002]"

definition msg_read_failed :: jsstring where
  "msg_read_failed =
     [0x8B80, 0x53D6, 0x5931, 0x6557, 0xFF0C, 0x8ACB, 0x78BA, 0x8A8D, 0x20, 0x41, 0x50,
      0x49, 0x20, 0x4B, 0x65, 0x79, 0x20, 0x662F, 0x5426, 0x6709, 0x6548, 0x3002]"

text \<open>The body of the \<open>try\<close> block of \<open>fetchChapterText\<close>.\<close>

definition fetchChapterText_try :: "jsstring option \<Rightarrow> collaborator \<Rightarrow> jsstring \<Rightarrow> int \<Rightarrow> error + jsstring" where
  "fetchChapterText_try apiKey genai book chapter =
     (case getAiClient apiKey genai of
        Inl e \<Rightarrow> Inl e
      | Inr ai \<Rightarrow>
          (case ai (ChapterPrompt book chapter) of
             Inl e \<Rightarrow> Inl e
           | Inr response \<Rightarrow> Inr (or_else (response_text response) msg_no_text)))"

text \<open>The \<open>catch\<close> logs the error and returns the second string.\<close>

definition fetchChapterText :: "jsstring option \<Rightarrow> collaborator \<Rightarrow> jsstring \<Rightarrow> int \<Rightarrow> error + jsstring" where
  "fetchChapterText apiKey genai book chapter =
     (case fetchChapterText_try apiKey genai book chapter of
        Inl e \<Rightarrow> Inr msg_read_failed
      | Inr t \<Rightarrow> Inr t)"

text \<open>\<open>response.candidates?.[0]?.content?.parts?.[0]?.inlineData?.data\<close>\<close>

definition first_inline_data :: "response \<Rightarrow> jsstring option" where
  "first_inline_data response =
     (case first_of (candidates response) of
        None \<Rightarrow> None
      | Some c \<Rightarrow>
          (case content c of
             None \<Rightarrow> None
           | Some ct \<Rightarrow>
               (case first_of (parts ct) of
                  None \<Rightarrow> None
                | Some p \<Rightarrow>
                    (case inlineData p of
                       None \<Rightarrow> None
                     | Some b \<Rightarrow> blob_data b))))"

text \<open>
  \<open>generateSpeech\<close>: its \<open>catch\<close> logs and rethrows, so every error of the \<open>try\<close> block
  is the error of the call. \<open>!base64Audio\<close> holds for \<open>undefined\<close> and for the empty
  string.
\<close>

definition generateSpeech :: "jsstring option \<Rightarrow> collaborator \<Rightarrow> jsstring \<Rightarrow> error + jsstring" where
  "generateSpeech apiKey genai txt =
     (case getAiClient apiKey genai of
        Inl e \<Rightarrow> Inl e
      | Inr ai \<Rightarrow>
          (case ai (SpeechPrompt txt) of
             Inl e \<Rightarrow> Inl e
           | Inr response \<Rightarrow>
               (case first_inline_data response of
                  None \<Rightarrow> Inl AUDIO_DATA_EMPTY
                | Some base64Audio \<Rightarrow>
                    if base64Audio = [] then Inl AUDIO_DATA_EMPTY else Inr base64Audio)))"

subsection \<open>The older module (\<open>services/geminiService.ts\<close>)\<close>

text \<open>
  No \<open>getAiClient\<close> and no \<open>try\<close>: the key goes to the library as it is, and what the
  library rejects with is what the call rejects with.
\<close>

definition msg_no_text_services :: jsstring where
  "msg_no_text_services =
     [0x7121, 0x6CD5, 0x7372, 0x53D6, 0x7D93, 0x6587, 0x5167, 0x5BB9, 0xFF0C, 0x8ACB,
      0x7A0D, 0x5F8C, 0x518D, 0x8A66, 0x3002]"

definition fetchChapterText_services :: "jsstring option \<Rightarrow> collaborator \<Rightarrow> jsstring \<Rightarrow> int \<Rightarrow> error + jsstring" where
  "fetchChapterText_services apiKey genai book chapter =
     (case genai apiKey (ChapterPrompt book chapter) of
        Inl e \<Rightarrow> Inl e
      | Inr response \<Rightarrow> Inr (or_else (response_text response) msg_no_text_services))"

definition generateSpeech_services :: "jsstring option \<Rightarrow> collaborator \<Rightarrow> jsstring \<Rightarrow> error + jsstring" where
  "generateSpeech_services apiKey genai txt =
     (case genai apiKey (SpeechPrompt txt) of
        Inl e \<Rightarrow> Inl e
      | Inr response \<Rightarrow>
          (case first_inline_data response of
             None \<Rightarrow> Inl Audio_generation_failed
           | Some base64Audio \<Rightarrow>
               if base64Audio = [] then Inl Audio_generation_failed else Inr base64Audio))"

subsection \<open>\<open>decodeBase64\<close>\<close>

text \<open>
  \<open>atob\<close> is the browser's. It is written here as the HTML standard defines it
  (forgiving-base64 decode): ASCII whitespace is removed; if the length is then a
  multiple of four, one or two trailing \<open>=\<close> are removed; a length that leaves remainder
  one, or a character outside the base64 alphabet, is an \<open>InvalidCharacterError\<close>; the
  characters are then read six bits each, every 24 bits give three bytes, and a last
  group of 12 or 18 bits gives one or two bytes, its low 4 or 2 bits dropped. The result
  is the string whose code units are those bytes.
\<close>

definition is_ascii_whitespace :: "16 word \<Rightarrow> bool" where
  "is_ascii_whitespace c = (c = 0x09 \<or> c = 0x0A \<or> c = 0x0C \<or> c = 0x0D \<or> c = 0x20)"

definition base64_value :: "16 word \<Rightarrow> nat option" where
  "base64_value c =
     (let n = unat c
      in if 65 \<le> n \<and> n \<le> 90 then Some (n - 65)
         else if 97 \<le> n \<and> n \<le> 122 then Some (n - 71)
         else if 48 \<le> n \<and> n \<le> 57 then Some (n + 4)
         else if n = 43 then Some 62
         else if n = 47 then Some 63
         else None)"

definition remove_padding :: "jsstring \<Rightarrow> jsstring" where
  "remove_padding d =
     (if length d mod 4 = 0 \<and> d \<noteq> [] \<and> last d = 0x3D
      then (if butlast d \<noteq> [] \<and> last (butlast d) = 0x3D then butlast (butlast d) else butlast d)
      else d)"

fun bytes_of_sextets :: "nat list \<Rightarrow> nat list" where
  "bytes_of_sextets (a # b # c # d # rest) =
     (let n = ((a * 64 + b) * 64 + c) * 64 + d
      in n div 65536 # n div 256 mod 256 # n mod 256 # bytes_of_sextets rest)"
| "bytes_of_sextets [a, b, c] =
     (let n = ((a * 64 + b) * 64 + c) div 4
      in [n div 256, n mod 256])"
| "bytes_of_sextets [a, b] = [(a * 64 + b) div 16]"
| "bytes_of_sextets _ = []"

definition atob :: "jsstring \<Rightarrow> error + jsstring" where
  "atob s =
     (let d = remove_padding (filter (\<lambda>c. \<not> is_ascii_whitespace c) s)
      in if length d mod 4 = 1 then Inl InvalidCharacterError
         else (case those (map base64_value d) of
                 None \<Rightarrow> Inl InvalidCharacterError
               | Some sextets \<Rightarrow> Inr (map of_nat (bytes_of_sextets sextets))))"

text \<open>
  \<open>binaryString.charCodeAt(i)\<close> is \<open>NaN\<close> out of range, and a \<open>Uint8Array\<close> stores a
  number modulo 256 and \<open>NaN\<close> as 0.
\<close>

definition charCodeAt :: "jsstring \<Rightarrow> nat \<Rightarrow> 16 word option" where
  "charCodeAt s i = typed_get s i"

definition to_uint8 :: "16 word option \<Rightarrow> byte" where
  "to_uint8 v = (case v of None \<Rightarrow> 0 | Some c \<Rightarrow> ucast c)"

text \<open>The \<open>for\<close> loop of \<open>decodeBase64\<close>, from index \<open>i\<close> on.\<close>

function decodeBase64_loop :: "jsstring \<Rightarrow> nat \<Rightarrow> nat \<Rightarrow> byte list \<Rightarrow> byte list" where
  "decodeBase64_loop binaryString len i bytes =
     (if i < len
      then decodeBase64_loop binaryString len (i + 1)
             (typed_set bytes i (to_uint8 (charCodeAt binaryString i)))
      else bytes)"
  by pat_completeness auto
termination
  by (relation "measure (\<lambda>(binaryString, len, i, bytes). len - i)") auto

declare decodeBase64_loop.simps [simp del]

definition decodeBase64 :: "jsstring \<Rightarrow> error + byte list" where
  "decodeBase64 base64 =
     (case atob base64 of
        Inl e \<Rightarrow> Inl e
      | Inr binaryString \<Rightarrow>
          (let len = length binaryString;
               bytes = replicate len 0
           in Inr (decodeBase64_loop binaryString len 0 bytes)))"

text \<open>
  The encoder is not part of the program: the collaborator encodes the audio it sends.
  It is standard base64 (RFC 4648, section 4; what \<open>btoa\<close> computes on a byte string):
  three bytes give four characters of the alphabet \<open>A-Z a-z 0-9 + /\<close>, a last group of
  one or two bytes is padded with zero bits and the text with \<open>=\<close> to a multiple of four.
\<close>

definition base64_char :: "nat \<Rightarrow> 16 word" where
  "base64_char n =
     (if n < 26 then of_nat (n + 65)
      else if n < 52 then of_nat (n + 71)
      else if n < 62 then of_nat (n - 4)
      else if n = 62 then 0x2B
      else 0x2F)"

fun sextets_of_bytes :: "byte list \<Rightarrow> nat list" where
  "sextets_of_bytes (a # b # c # rest) =
     (let n = (unat a * 256 + unat b) * 256 + unat c
      in n div 262144 # n div 4096 mod 64 # n div 64 mod 64 # n mod 64 # sextets_of_bytes rest)"
| "sextets_of_bytes [a, b] =
     (let n = (unat a * 256 + unat b) * 4
      in [n div 4096, n div 64 mod 64, n mod 64])"
| "sextets_of_bytes [a] =
     (let n = unat a * 16
      in [n div 64, n mod 64])"
| "sextets_of_bytes [] = []"

definition base64_encode :: "byte list \<Rightarrow> jsstring" where
  "base64_encode bytes =
     map base64_char (sextets_of_bytes bytes) @ replicate ((3 - length bytes mod 3) mod 3) 0x3D"

subsection \<open>\<open>decodeAudioData\<close>\<close>

text \<open>
  A sample of a \<open>Float32Array\<close>. The only numbers the decoder stores are 16-bit integers
  divided by 32768; these are exact in double and in single precision, so a rational
  number is the stored value itself and nothing is rounded. \<open>NaN\<close> is what
  \<open>undefined / 32768.0\<close> gives.
\<close>

datatype sample = Num rat | NaN

text \<open>
  The \<open>AudioContext\<close> handed to \<open>decodeAudioData\<close>, as far as the program depends on it:
  whether it is suspended, and the limits within which its \<open>createBuffer\<close> accepts a
  channel count and a sample rate (the Web Audio API leaves them to the browser, at
  least 32 channels and 8000 to 96000 Hz).
\<close>

datatype ContextState = Suspended | Running

record AudioContext =
  ctx_state :: ContextState
  maxChannels :: nat
  minSampleRate :: nat
  maxSampleRate :: nat

record AudioBuffer =
  buffer_sampleRate :: nat
  channels :: "sample list list"

text \<open>
  \<open>new Int16Array(data.buffer)\<close> views the bytes of the buffer as 16-bit integers in
  the byte order of the platform, little-endian on every platform a browser runs on, and
  throws a \<open>RangeError\<close> when the byte length is odd. The \<open>Uint8Array\<close> of
  \<open>decodeBase64\<close> spans its whole buffer, so \<open>data\<close> stands for \<open>data.buffer\<close>.
\<close>

fun int16_le :: "byte list \<Rightarrow> 16 word list" where
  "int16_le (lo # hi # rest) = (push_bit 8 (ucast hi) OR ucast lo) # int16_le rest"
| "int16_le _ = []"

definition Int16Array :: "byte list \<Rightarrow> error + 16 word list" where
  "Int16Array buffer = (if odd (length buffer) then Inl RangeError else Inr (int16_le buffer))"

text \<open>
  \<open>dataInt16.length / numChannels\<close> is a division of numbers, not of integers: the
  quotient may have a fractional part, and \<open>None\<close> stands for the two results of a
  division by zero (\<open>Infinity\<close> and \<open>NaN\<close>).
\<close>

definition js_div :: "nat \<Rightarrow> nat \<Rightarrow> rat option" where
  "js_div a b = (if b = 0 then None else Some (of_nat a / of_nat b))"

text \<open>
  \<open>createBuffer\<close> takes its length as a Web IDL \<open>unsigned long\<close>: a number that is not
  finite becomes 0 and any other is truncated (lengths stay below \<open>2^32\<close>, where the
  conversion would wrap). It throws a \<open>NotSupportedError\<close> when the channel count or the
  length is zero or an argument is outside the limits of the context; otherwise the
  buffer has that many channels of that many zero samples.
\<close>

definition to_unsigned_long :: "rat option \<Rightarrow> nat" where
  "to_unsigned_long v = (case v of None \<Rightarrow> 0 | Some q \<Rightarrow> nat \<lfloor>q\<rfloor>)"

definition createBuffer :: "AudioContext \<Rightarrow> nat \<Rightarrow> rat option \<Rightarrow> nat \<Rightarrow> error + AudioBuffer" where
  "createBuffer ctx numberOfChannels len sampleRate =
     (if numberOfChannels = 0 \<or> maxChannels ctx < numberOfChannels
         \<or> to_unsigned_long len = 0
         \<or> sampleRate < minSampleRate ctx \<or> maxSampleRate ctx < sampleRate
      then Inl NotSupportedError
      else Inr \<lparr>buffer_sampleRate = sampleRate,
                channels = replicate numberOfChannels (replicate (to_unsigned_long len) (Num 0))\<rparr>)"

definition getChannelData :: "AudioBuffer \<Rightarrow> nat \<Rightarrow> error + sample list" where
  "getChannelData buffer channel =
     (if channel < length (channels buffer) then Inr (channels buffer ! channel)
      else Inl IndexSizeError)"

text \<open>\<open>dataInt16[k] / 32768.0\<close>\<close>

definition sample_of :: "16 word option \<Rightarrow> sample" where
  "sample_of v = (case v of None \<Rightarrow> NaN | Some w \<Rightarrow> Num (of_int (sint w) / 32768))"

text \<open>
  The inner loop, from frame \<open>i\<close> on. Its bound is the quotient itself, so with a
  fractional \<open>frameCount\<close> it runs once more than the channel has frames; that write is
  out of range.
\<close>

function frame_loop :: "16 word list \<Rightarrow> rat \<Rightarrow> nat \<Rightarrow> nat \<Rightarrow> nat \<Rightarrow> sample list \<Rightarrow> sample list" where
  "frame_loop dataInt16 frameCount numChannels channel i channelData =
     (if of_nat i < frameCount
      then frame_loop dataInt16 frameCount numChannels channel (i + 1)
             (typed_set channelData i
                (sample_of (typed_get dataInt16 (i * numChannels + channel))))
      else channelData)"
  by pat_completeness auto
termination
proof (relation "measure (\<lambda>(dataInt16, frameCount, numChannels, channel, i, channelData).
                            nat \<lceil>frameCount\<rceil> - i)")
  show "wf (measure (\<lambda>(dataInt16, frameCount, numChannels, channel, i, channelData).
                            nat \<lceil>frameCount\<rceil> - i))"
    by simp
next
  fix dataInt16 :: "16 word list" and frameCount :: rat and numChannels channel i :: nat
    and channelData :: "sample list"
  assume "of_nat i < frameCount"
  then have "int i < \<lceil>frameCount\<rceil>" by (simp add: less_ceiling_iff)
  then have "i < nat \<lceil>frameCount\<rceil>" by simp
  then show "((dataInt16, frameCount, numChannels, channel, i + 1,
               typed_set channelData i (sample_of (typed_get dataInt16 (i * numChannels + channel)))),
              (dataInt16, frameCount, numChannels, channel, i, channelData))
             \<in> measure (\<lambda>(dataInt16, frameCount, numChannels, channel, i, channelData).
                            nat \<lceil>frameCount\<rceil> - i)"
    by simp
qed

text \<open>
  The outer loop, from channel \<open>channel\<close> on. \<open>getChannelData\<close> returns the channel's own
  array, so the writes of the inner loop are writes to the buffer.
\<close>

function channel_loop :: "16 word list \<Rightarrow> rat \<Rightarrow> nat \<Rightarrow> nat \<Rightarrow> AudioBuffer \<Rightarrow> error + AudioBuffer" where
  "channel_loop dataInt16 frameCount numChannels channel buffer =
     (if channel < numChannels
      then (case getChannelData buffer channel of
              Inl e \<Rightarrow> Inl e
            | Inr channelData \<Rightarrow>
                channel_loop dataInt16 frameCount numChannels (channel + 1)
                  (buffer\<lparr>channels := (channels buffer)
                     [channel := frame_loop dataInt16 frameCount numChannels channel 0 channelData]\<rparr>))
      else Inr buffer)"
  by pat_completeness auto
termination
  by (relation "measure (\<lambda>(dataInt16, frameCount, numChannels, channel, buffer).
                           numChannels - channel)") auto

declare frame_loop.simps [simp del]
declare channel_loop.simps [simp del]

text \<open>
  \<open>decodeAudioData\<close>. Its callers pass no sample rate and no channel count, so these
  are 24000 and 1 there. A quotient that is not finite comes from \<open>numChannels = 0\<close>,
  for which the outer loop has nothing to do.
\<close>

definition decodeAudioData :: "byte list \<Rightarrow> AudioContext \<Rightarrow> nat \<Rightarrow> nat \<Rightarrow> error + AudioBuffer" where
  "decodeAudioData data ctx sampleRate numChannels =
     (case Int16Array data of
        Inl e \<Rightarrow> Inl e
      | Inr dataInt16 \<Rightarrow>
          (let frameCount = js_div (length dataInt16) numChannels
           in case createBuffer ctx numChannels frameCount sampleRate of
                Inl e \<Rightarrow> Inl e
              | Inr buffer \<Rightarrow>
                  (case frameCount of
                     None \<Rightarrow> Inr buffer
                   | Some fc \<Rightarrow> channel_loop dataInt16 fc numChannels 0 buffer)))"

subsection \<open>The specification's reading of the response\<close>

text \<open>
  The specification speaks of an inline audio payload being present in the first
  candidate. Read by its words: the response has a first candidate, and some part of
  that candidate carries inline data with a payload. This is the specification's
  predicate, to be compared with \<open>first_inline_data\<close>, which is the program's.
\<close>

definition spec_inline_audio_present :: "response \<Rightarrow> bool" where
  "spec_inline_audio_present response =
     (case first_of (candidates response) of
        None \<Rightarrow> False
      | Some c \<Rightarrow>
          (case content c of
             None \<Rightarrow> False
           | Some ct \<Rightarrow>
               (case parts ct of
                  None \<Rightarrow> False
                | Some ps \<Rightarrow>
                    list_ex (\<lambda>p. case inlineData p of None \<Rightarrow> False | Some b \<Rightarrow> blob_data b \<noteq> None) ps)))"


section \<open>The application component\<close>

subsection \<open>Reading progress and font size\<close>

text \<open>
  Modelled from the spec: the type \<open>ReadingProgress\<close> of \<open>./types\<close>, a file that is not
  among the sources. The specification makes it a mapping from book identifier to a
  collection of completed chapter numbers, and the component uses it as an object whose
  values are arrays of numbers; chapter numbers are whole numbers.
\<close>

type_synonym ReadingProgress = "jsstring \<rightharpoonup> int list"

text \<open>
  \<open>prev[bookId]\<close> is a property lookup on a plain object: it finds the book's own entry
  and, when there is none, a member the object inherits from \<open>Object.prototype\<close> under
  that name. These are the inherited names.
\<close>

definition object_prototype_members :: "jsstring list" where
  "object_prototype_members =
     [[0x63, 0x6F, 0x6E, 0x73, 0x74, 0x72, 0x75, 0x63, 0x74, 0x6F, 0x72],
      [0x5F, 0x5F, 0x64, 0x65, 0x66, 0x69, 0x6E, 0x65, 0x47, 0x65, 0x74, 0x74, 0x65, 0x72, 0x5F, 0x5F],
      [0x5F, 0x5F, 0x64, 0x65, 0x66, 0x69, 0x6E, 0x65, 0x53, 0x65, 0x74, 0x74, 0x65, 0x72, 0x5F, 0x5F],
      [0x68, 0x61, 0x73, 0x4F, 0x77, 0x6E, 0x50, 0x72, 0x6F, 0x70, 0x65, 0x72, 0x74, 0x79],
      [0x5F, 0x5F, 0x6C, 0x6F, 0x6F, 0x6B, 0x75, 0x70, 0x47, 0x65, 0x74, 0x74, 0x65, 0x72, 0x5F, 0x5F],
      [0x5F, 0x5F, 0x6C, 0x6F, 0x6F, 0x6B, 0x75, 0x70, 0x53, 0x65, 0x74, 0x74, 0x65, 0x72, 0x5F, 0x5F],
      [0x69, 0x73, 0x50, 0x72, 0x6F, 0x74, 0x6F, 0x74, 0x79, 0x70, 0x65, 0x4F, 0x66],
      [0x70, 0x72, 0x6F, 0x70, 0x65, 0x72, 0x74, 0x79, 0x49, 0x73, 0x45, 0x6E, 0x75, 0x6D, 0x65,
       0x72, 0x61, 0x62, 0x6C, 0x65],
      [0x74, 0x6F, 0x53, 0x74, 0x72, 0x69, 0x6E, 0x67],
      [0x76, 0x61, 0x6C, 0x75, 0x65, 0x4F, 0x66],
      [0x5F, 0x5F, 0x70, 0x72, 0x6F, 0x74, 0x6F, 0x5F, 0x5F],
      [0x74, 0x6F, 0x4C, 0x6F, 0x63, 0x61, 0x6C, 0x65, 0x53, 0x74, 0x72, 0x69, 0x6E, 0x67]]"

text \<open>
  \<open>(prev[bookId] || []).includes(chapter)\<close>, up to the call of \<open>includes\<close>: an own entry
  is an array (truthy also when empty); a missing name reads as the empty array; an
  inherited member is a function, or the prototype itself for \<open>__proto__\<close>, which is
  truthy and has no \<open>includes\<close>, so the call throws a \<open>TypeError\<close>.
\<close>

definition chapters_of :: "ReadingProgress \<Rightarrow> jsstring \<Rightarrow> error + int list" where
  "chapters_of progress bookId =
     (case progress bookId of
        Some cs \<Rightarrow> Inr cs
      | None \<Rightarrow> if bookId \<in> set object_prototype_members then Inl TypeError else Inr [])"



text \<open>
  \<open>setFontSize(prev => Math.min(48, Math.max(14, prev + delta)))\<close>. Font sizes are whole
  numbers (the default 20, or the result of \<open>parseInt\<close>) and the two callers pass the
  deltas 2 and -2.
\<close>

definition adjustFontSize :: "int \<Rightarrow> int \<Rightarrow> int" where
  "adjustFontSize prev delta = min 48 (max 14 (prev + delta))"

subsection \<open>Audio playback\<close>

text \<open>
  Modelled from the spec: the enum \<open>AudioState\<close> of \<open>./types\<close>, a file that is not among
  the sources. The specification gives the playback state the four values Idle, Loading,
  Playing and Error; the component names them \<open>AudioState.IDLE\<close>, \<open>LOADING\<close>, \<open>PLAYING\<close>
  and \<open>ERROR\<close>.
\<close>

datatype AudioState = IDLE | LOADING | PLAYING | ERROR

text \<open>
  An \<open>AudioBufferSourceNode\<close>: its buffer, whether it is connected to the destination of
  the context, whether the \<open>onended\<close> handler of \<open>playAudio\<close> is installed, and where it
  is in its one playback: not started, started, or finished (stopped, or played to the
  end). A playback session is a node that is connected and started: it lasts from
  \<open>start\<close> to \<open>stop\<close> or to the end of the buffer. The program never disconnects a node.
\<close>

datatype PlaybackState = Unscheduled | Started | Finished

record SourceNode =
  node_buffer :: "AudioBuffer option"
  node_connected :: bool
  node_onended :: bool
  node_state :: PlaybackState

text \<open>
  What playback reads and writes: the two React states, as React holds them (the value
  last set), the two refs, the source nodes made so far (a ref holds the index of its
  node), the number of calls of \<open>playAudio\<close> that are waiting for \<open>generateSpeech\<close>, and
  the number of alerts shown.
\<close>

record App =
  chapterContent :: jsstring
  audioState :: AudioState
  audioContextRef :: "AudioContext option"
  audioSourceRef :: "nat option"
  nodes :: "SourceNode list"
  pending :: nat
  alerts :: nat

definition initial :: App where
  "initial = \<lparr>chapterContent = [], audioState = IDLE, audioContextRef = None,
              audioSourceRef = None, nodes = [], pending = 0, alerts = 0\<rparr>"

text \<open>
  \<open>initAudio\<close>; \<open>fresh\<close> is the context \<open>new AudioContext({ sampleRate: 24000 })\<close> gives.
  \<open>resume()\<close> is not awaited; the context counts as running from the call on.
\<close>

definition initAudio :: "AudioContext \<Rightarrow> App \<Rightarrow> App" where
  "initAudio fresh s =
     (let s1 = (if audioContextRef s = None then s\<lparr>audioContextRef := Some fresh\<rparr> else s)
      in case audioContextRef s1 of
           None \<Rightarrow> s1
         | Some ctx \<Rightarrow>
             if ctx_state ctx = Suspended
             then s1\<lparr>audioContextRef := Some (ctx\<lparr>ctx_state := Running\<rparr>)\<rparr>
             else s1)"

text \<open>
  \<open>source.stop()\<close> throws an \<open>InvalidStateError\<close> on a node that was never started,
  ends a started node and does nothing to a finished one. A ref to a node that does not
  exist does not occur in the program; here it is a fault as well.
\<close>

definition node_stop :: "SourceNode list \<Rightarrow> nat \<Rightarrow> error + SourceNode list" where
  "node_stop g r =
     (case typed_get g r of
        None \<Rightarrow> Inl TypeError
      | Some n \<Rightarrow>
          if node_state n = Unscheduled then Inl InvalidStateError
          else Inr (g[r := n\<lparr>node_state := Finished\<rparr>]))"

text \<open>\<open>try { audioSourceRef.current.stop(); } catch(e) {}\<close>\<close>

definition try_stop :: "SourceNode list \<Rightarrow> nat \<Rightarrow> SourceNode list" where
  "try_stop g r = (case node_stop g r of Inl e \<Rightarrow> g | Inr g' \<Rightarrow> g')"

definition stopAudio :: "App \<Rightarrow> App" where
  "stopAudio s =
     (let s1 = (case audioSourceRef s of
                  None \<Rightarrow> s
                | Some r \<Rightarrow> s\<lparr>nodes := try_stop (nodes s) r, audioSourceRef := None\<rparr>)
      in s1\<lparr>audioState := IDLE\<rparr>)"

text \<open>
  The three steps that can fail, given what \<open>generateSpeech\<close> settled with:
  \<open>generateSpeech\<close> itself, \<open>decodeBase64\<close>, and \<open>decodeAudioData\<close> with the context of
  the ref (a \<open>TypeError\<close> if the ref were empty).
\<close>

definition decode_speech :: "AudioContext option \<Rightarrow> error + jsstring \<Rightarrow> error + AudioBuffer" where
  "decode_speech ctx speech =
     (case speech of
        Inl e \<Rightarrow> Inl e
      | Inr base64 \<Rightarrow>
          (case decodeBase64 base64 of
             Inl e \<Rightarrow> Inl e
           | Inr audioData \<Rightarrow>
               (case ctx of
                  None \<Rightarrow> Inl TypeError
                | Some c \<Rightarrow> decodeAudioData audioData c 24000 1)))"

text \<open>
  The rest of the \<open>try\<close> block: stop the node of the ref if there is one, make a source
  node, give it the buffer, connect it, install \<open>onended\<close>, start it (a node just made
  is not started, so \<open>start(0)\<close> does not throw), and set the ref and the state.
\<close>

definition createBufferSource :: SourceNode where
  "createBufferSource =
     \<lparr>node_buffer = None, node_connected = False, node_onended = False,
      node_state = Unscheduled\<rparr>"

definition start_source :: "AudioBuffer \<Rightarrow> App \<Rightarrow> App" where
  "start_source buffer s =
     (let g = (case audioSourceRef s of None \<Rightarrow> nodes s | Some r \<Rightarrow> try_stop (nodes s) r);
          source = createBufferSource
                     \<lparr>node_buffer := Some buffer, node_connected := True,
                      node_onended := True, node_state := Started\<rparr>
      in s\<lparr>nodes := g @ [source], audioSourceRef := Some (length g), audioState := PLAYING\<rparr>)"

text \<open>
  What \<open>playAudio\<close> does when the \<open>generateSpeech\<close> it waits for has settled with
  \<open>speech\<close>: the three steps, then either the rest of the \<open>try\<close> block or the \<open>catch\<close>.
  The decoding between the two \<open>await\<close>s touches no state, so the two resumptions are
  one step.
\<close>

definition playAudio_resume :: "error + jsstring \<Rightarrow> App \<Rightarrow> App" where
  "playAudio_resume speech s =
     (if pending s = 0 then s
      else (let s1 = s\<lparr>pending := pending s - 1\<rparr>
            in case decode_speech (audioContextRef s1) speech of
                 Inl e \<Rightarrow> s1\<lparr>audioState := ERROR, alerts := alerts s1 + 1\<rparr>
               | Inr buffer \<Rightarrow> start_source buffer s1))"








definition sessions :: "App \<Rightarrow> SourceNode list" where
  "sessions s = filter (\<lambda>n. node_connected n \<and> node_state n = Started) (nodes s)"


section \<open>Properties\<close>

subsection \<open>Reading progress\<close>


lemma chapters_of_plain:
  "progress bookId = None \<Longrightarrow> bookId \<notin> set object_prototype_members \<Longrightarrow>
   chapters_of progress bookId = Inr []"
  by (simp add: chapters_of_def)








subsection \<open>Font size\<close>

lemma adjustFontSize_range: "14 \<le> adjustFontSize prev delta \<and> adjustFontSize prev delta \<le> 48"
  by (simp add: adjustFontSize_def)

lemma foldl_adjustFontSize_range:
  "14 \<le> prev \<Longrightarrow> prev \<le> 48 \<Longrightarrow>
   14 \<le> foldl adjustFontSize prev deltas \<and> foldl adjustFontSize prev deltas \<le> 48"
proof (induction deltas arbitrary: prev)
  case Nil
  then show ?case by simp
next
  case (Cons d ds)
  have "14 \<le> adjustFontSize prev d" and "adjustFontSize prev d \<le> 48"
    using adjustFontSize_range [of prev d] by simp_all
  then show ?case using Cons.IH [of "adjustFontSize prev d"] by simp
qed

text \<open>
  C10. From a font size between 14 and 48, one call of \<open>adjustFontSize\<close> with any delta
  gives a size between 14 and 48, and so does any sequence of calls.
\<close>

theorem fontSize_stays_in_range:
  assumes "14 \<le> prev" and "prev \<le> 48"
  shows "14 \<le> adjustFontSize prev delta \<and> adjustFontSize prev delta \<le> 48
       \<and> 14 \<le> foldl adjustFontSize prev deltas \<and> foldl adjustFontSize prev deltas \<le> 48"
  using assms adjustFontSize_range [of prev delta] foldl_adjustFontSize_range [of prev deltas]
  by simp

theorem fontSize_stays_in_range_witness:
  "(14::int) \<le> 46 \<and> (46::int) \<le> 48
   \<and> adjustFontSize 46 2 = 48 \<and> adjustFontSize 48 2 = 48 \<and> adjustFontSize 14 (- 2) = 14
   \<and> 14 \<le> foldl adjustFontSize 46 [2, 2, 2, - 2] \<and> foldl adjustFontSize 46 [2, 2, 2, - 2] \<le> 48"
  using fontSize_stays_in_range [of 46 2 "[2, 2, 2, - 2]"]
  by (simp add: adjustFontSize_def)

subsection \<open>Fetching the text of a chapter\<close>

lemma fetchChapterText_total: "\<exists>t. fetchChapterText apiKey genai book chapter = Inr t"
  by (simp add: fetchChapterText_def split: sum.split)

lemma fetchChapterText_no_key:
  "falsy apiKey \<or> apiKey = Some str_undefined \<Longrightarrow>
   fetchChapterText apiKey genai book chapter = Inr msg_read_failed"
  by (auto simp: fetchChapterText_def fetchChapterText_try_def getAiClient_def)

lemma fetchChapterText_with_key:
  "\<not> falsy apiKey \<Longrightarrow> apiKey \<noteq> Some str_undefined \<Longrightarrow>
   fetchChapterText apiKey genai book chapter =
     (case genai apiKey (ChapterPrompt book chapter) of
        Inl e \<Rightarrow> Inr msg_read_failed
      | Inr r \<Rightarrow> Inr (or_else (response_text r) msg_no_text))"
  by (auto simp: fetchChapterText_def fetchChapterText_try_def getAiClient_def falsy_def
           split: sum.split option.splits)

lemma or_else_falsy: "falsy v \<Longrightarrow> or_else v d = d"
  by (auto simp: falsy_def or_else_def split: option.splits)

text \<open>
  C1 (as amended). The \<open>fetchChapterText\<close> of the current module never raises: it
  returns a string for every key, collaborator, book and chapter. A missing key and a
  rejection by the collaborator both give the string \<open>msg_read_failed\<close>, a response with
  no text gives \<open>msg_no_text\<close>, and a response with text gives that text. The
  \<open>fetchChapterText\<close> of the older module gives its fallback string for a response with
  no text; what it does when the collaborator rejects is the counterexample below.
\<close>

theorem fetchChapterText_falls_back:
  "(\<exists>t. fetchChapterText apiKey genai book chapter = Inr t)
   \<and> (falsy apiKey \<or> apiKey = Some str_undefined \<longrightarrow>
        fetchChapterText apiKey genai book chapter = Inr msg_read_failed)
   \<and> (\<not> falsy apiKey \<and> apiKey \<noteq> Some str_undefined
        \<and> genai apiKey (ChapterPrompt book chapter) = Inl e \<longrightarrow>
        fetchChapterText apiKey genai book chapter = Inr msg_read_failed)
   \<and> (\<not> falsy apiKey \<and> apiKey \<noteq> Some str_undefined
        \<and> genai apiKey (ChapterPrompt book chapter) = Inr r \<and> falsy (response_text r) \<longrightarrow>
        fetchChapterText apiKey genai book chapter = Inr msg_no_text)
   \<and> (\<not> falsy apiKey \<and> apiKey \<noteq> Some str_undefined
        \<and> genai apiKey (ChapterPrompt book chapter) = Inr r
        \<and> response_text r = Some t \<and> t \<noteq> [] \<longrightarrow>
        fetchChapterText apiKey genai book chapter = Inr t)
   \<and> (genai apiKey (ChapterPrompt book chapter) = Inr r \<and> falsy (response_text r) \<longrightarrow>
        fetchChapterText_services apiKey genai book chapter = Inr msg_no_text_services)"
proof -
  have a: "\<exists>t. fetchChapterText apiKey genai book chapter = Inr t"
    by (rule fetchChapterText_total)
  have b: "falsy apiKey \<or> apiKey = Some str_undefined \<longrightarrow>
        fetchChapterText apiKey genai book chapter = Inr msg_read_failed"
    by (simp add: fetchChapterText_no_key)
  have c: "\<not> falsy apiKey \<and> apiKey \<noteq> Some str_undefined
        \<and> genai apiKey (ChapterPrompt book chapter) = Inl e \<longrightarrow>
        fetchChapterText apiKey genai book chapter = Inr msg_read_failed"
    by (simp add: fetchChapterText_with_key)
  have d: "\<not> falsy apiKey \<and> apiKey \<noteq> Some str_undefined
        \<and> genai apiKey (ChapterPrompt book chapter) = Inr r \<and> falsy (response_text r) \<longrightarrow>
        fetchChapterText apiKey genai book chapter = Inr msg_no_text"
    by (simp add: fetchChapterText_with_key or_else_falsy)
  have e: "\<not> falsy apiKey \<and> apiKey \<noteq> Some str_undefined
        \<and> genai apiKey (ChapterPrompt book chapter) = Inr r
        \<and> response_text r = Some t \<and> t \<noteq> [] \<longrightarrow>
        fetchChapterText apiKey genai book chapter = Inr t"
    by (simp add: fetchChapterText_with_key or_else_def)
  have f: "genai apiKey (ChapterPrompt book chapter) = Inr r \<and> falsy (response_text r) \<longrightarrow>
        fetchChapterText_services apiKey genai book chapter = Inr msg_no_text_services"
    by (simp add: fetchChapterText_services_def or_else_falsy)
  from a b c d e f show ?thesis by blast
qed

theorem fetchChapterText_falls_back_witness:
  "fetchChapterText None (\<lambda>k q. Inl (CollaboratorError 401)) [0x4A, 0x6F, 0x62] 3
     = Inr msg_read_failed
   \<and> fetchChapterText (Some [0x6B]) (\<lambda>k q. Inl (CollaboratorError 503)) [0x4A, 0x6F, 0x62] 3
     = Inr msg_read_failed
   \<and> fetchChapterText (Some [0x6B])
        (\<lambda>k q. Inr \<lparr>response_text = Some [], candidates = None\<rparr>) [0x4A, 0x6F, 0x62] 3
     = Inr msg_no_text
   \<and> fetchChapterText (Some [0x6B])
        (\<lambda>k q. Inr \<lparr>response_text = Some [0x49], candidates = None\<rparr>) [0x4A, 0x6F, 0x62] 3
     = Inr [0x49]
   \<and> fetchChapterText_services None
        (\<lambda>k q. Inr \<lparr>response_text = None, candidates = None\<rparr>) [0x4A, 0x6F, 0x62] 3
     = Inr msg_no_text_services"
  using fetchChapterText_falls_back
          [of None "\<lambda>k q. Inl (CollaboratorError 401)" "[0x4A, 0x6F, 0x62]" 3]
        fetchChapterText_falls_back
          [of "Some [0x6B]" "\<lambda>k q. Inl (CollaboratorError 503)" "[0x4A, 0x6F, 0x62]" 3
              "CollaboratorError 503"]
        fetchChapterText_falls_back
          [of "Some [0x6B]" "\<lambda>k q. Inr \<lparr>response_text = Some [], candidates = None\<rparr>"
              "[0x4A, 0x6F, 0x62]" 3 _ "\<lparr>response_text = Some [], candidates = None\<rparr>"]
        fetchChapterText_falls_back
          [of "Some [0x6B]" "\<lambda>k q. Inr \<lparr>response_text = Some [0x49], candidates = None\<rparr>"
              "[0x4A, 0x6F, 0x62]" 3 _ "\<lparr>response_text = Some [0x49], candidates = None\<rparr>" "[0x49]"]
        fetchChapterText_falls_back
          [of None "\<lambda>k q. Inr \<lparr>response_text = None, candidates = None\<rparr>"
              "[0x4A, 0x6F, 0x62]" 3 _ "\<lparr>response_text = None, candidates = None\<rparr>"]
  by (simp add: falsy_def str_undefined_def)

text \<open>
  The older module at a collaborator that rejects: the rejection is the outcome of the
  call, not a fallback string.
\<close>

theorem fetchChapterText_services_propagates:
  "fetchChapterText_services (Some [0x6B]) (\<lambda>k q. Inl (CollaboratorError 503)) [0x4A, 0x6F, 0x62] 3
     = Inl (CollaboratorError 503)
   \<and> \<not> (\<exists>t. fetchChapterText_services (Some [0x6B]) (\<lambda>k q. Inl (CollaboratorError 503))
              [0x4A, 0x6F, 0x62] 3 = Inr t)"
  by (simp add: fetchChapterText_services_def)

subsection \<open>Fetching the speech\<close>

lemma generateSpeech_no_key:
  "getAiClient apiKey genai = Inl e \<Longrightarrow> generateSpeech apiKey genai txt = Inl e"
  by (simp add: generateSpeech_def)

lemma generateSpeech_rejected:
  "getAiClient apiKey genai = Inr ai \<Longrightarrow> ai (SpeechPrompt txt) = Inl e \<Longrightarrow>
   generateSpeech apiKey genai txt = Inl e"
  by (simp add: generateSpeech_def)

lemma generateSpeech_resolved:
  "getAiClient apiKey genai = Inr ai \<Longrightarrow> ai (SpeechPrompt txt) = Inr r \<Longrightarrow>
   generateSpeech apiKey genai txt =
     (if falsy (first_inline_data r) then Inl AUDIO_DATA_EMPTY
      else Inr (or_else (first_inline_data r) []))"
  by (simp add: generateSpeech_def falsy_def or_else_def split: option.split)

lemma generateSpeech_services_eq:
  "generateSpeech_services apiKey genai txt =
     (case genai apiKey (SpeechPrompt txt) of
        Inl e \<Rightarrow> Inl e
      | Inr r \<Rightarrow> if falsy (first_inline_data r) then Inl Audio_generation_failed
                 else Inr (or_else (first_inline_data r) []))"
  by (simp add: generateSpeech_services_def falsy_def or_else_def split: sum.split option.split)

text \<open>
  C5 (as amended). When the collaborator resolves with a response, \<open>generateSpeech\<close>
  fails exactly when the first part of the first candidate carries no non-empty inline
  data (no candidates, no content, no parts, a first part without inline data, or an
  empty data string), and the error is then \<open>AUDIO_DATA_EMPTY\<close>; otherwise it returns
  that payload. A missing key and a rejection by the collaborator are the error of the
  call. The older module does the same with the error \<open>Audio_generation_failed\<close>.
\<close>

theorem generateSpeech_fails_iff_first_part_empty:
  "(getAiClient apiKey genai = Inl e \<longrightarrow> generateSpeech apiKey genai txt = Inl e)
   \<and> (getAiClient apiKey genai = Inr ai \<and> ai (SpeechPrompt txt) = Inl e \<longrightarrow>
        generateSpeech apiKey genai txt = Inl e)
   \<and> (getAiClient apiKey genai = Inr ai \<and> ai (SpeechPrompt txt) = Inr r \<longrightarrow>
        ((\<exists>e'. generateSpeech apiKey genai txt = Inl e') = falsy (first_inline_data r))
        \<and> (falsy (first_inline_data r) \<longrightarrow> generateSpeech apiKey genai txt = Inl AUDIO_DATA_EMPTY)
        \<and> (first_inline_data r = Some b \<and> b \<noteq> [] \<longrightarrow> generateSpeech apiKey genai txt = Inr b))
   \<and> (genai apiKey (SpeechPrompt txt) = Inl e \<longrightarrow> generateSpeech_services apiKey genai txt = Inl e)
   \<and> (genai apiKey (SpeechPrompt txt) = Inr r \<longrightarrow>
        ((\<exists>e'. generateSpeech_services apiKey genai txt = Inl e') = falsy (first_inline_data r))
        \<and> (first_inline_data r = Some b \<and> b \<noteq> [] \<longrightarrow>
             generateSpeech_services apiKey genai txt = Inr b))"
proof -
  have a: "getAiClient apiKey genai = Inl e \<longrightarrow> generateSpeech apiKey genai txt = Inl e"
    by (simp add: generateSpeech_no_key)
  have b: "getAiClient apiKey genai = Inr ai \<and> ai (SpeechPrompt txt) = Inl e \<longrightarrow>
        generateSpeech apiKey genai txt = Inl e"
    by (simp add: generateSpeech_rejected)
  have c: "getAiClient apiKey genai = Inr ai \<and> ai (SpeechPrompt txt) = Inr r \<longrightarrow>
        ((\<exists>e'. generateSpeech apiKey genai txt = Inl e') = falsy (first_inline_data r))
        \<and> (falsy (first_inline_data r) \<longrightarrow> generateSpeech apiKey genai txt = Inl AUDIO_DATA_EMPTY)
        \<and> (first_inline_data r = Some b \<and> b \<noteq> [] \<longrightarrow> generateSpeech apiKey genai txt = Inr b)"
    by (auto simp: generateSpeech_resolved or_else_def falsy_def)
  have d: "genai apiKey (SpeechPrompt txt) = Inl e \<longrightarrow> generateSpeech_services apiKey genai txt = Inl e"
    by (simp add: generateSpeech_services_eq)
  have f: "genai apiKey (SpeechPrompt txt) = Inr r \<longrightarrow>
        ((\<exists>e'. generateSpeech_services apiKey genai txt = Inl e') = falsy (first_inline_data r))
        \<and> (first_inline_data r = Some b \<and> b \<noteq> [] \<longrightarrow>
             generateSpeech_services apiKey genai txt = Inr b)"
    by (auto simp: generateSpeech_services_eq or_else_def falsy_def)
  from a b c d f show ?thesis by blast
qed

theorem generateSpeech_fails_iff_first_part_empty_witness:
  "generateSpeech None (\<lambda>k q. Inl (CollaboratorError 401)) [0x49] = Inl API_KEY_MISSING
   \<and> generateSpeech (Some [0x6B]) (\<lambda>k q. Inl (CollaboratorError 503)) [0x49]
     = Inl (CollaboratorError 503)
   \<and> generateSpeech (Some [0x6B])
        (\<lambda>k q. Inr \<lparr>response_text = None, candidates = Some []\<rparr>) [0x49]
     = Inl AUDIO_DATA_EMPTY
   \<and> generateSpeech (Some [0x6B])
        (\<lambda>k q. Inr \<lparr>response_text = None, candidates =
           Some [Candidate (Some (Content (Some [Part None (Some (Blob (Some [0x41, 0x41, 0x41, 0x41])))])))]\<rparr>)
        [0x49]
     = Inr [0x41, 0x41, 0x41, 0x41]
   \<and> generateSpeech_services None (\<lambda>k q. Inl (CollaboratorError 401)) [0x49]
     = Inl (CollaboratorError 401)"
  using generateSpeech_fails_iff_first_part_empty
          [of None "\<lambda>k q. Inl (CollaboratorError 401)" API_KEY_MISSING "[0x49]"]
        generateSpeech_fails_iff_first_part_empty
          [of "Some [0x6B]" "\<lambda>k q. Inl (CollaboratorError 503)" "CollaboratorError 503" "[0x49]"
              "\<lambda>q. Inl (CollaboratorError 503)"]
        generateSpeech_fails_iff_first_part_empty
          [of "Some [0x6B]" "\<lambda>k q. Inr \<lparr>response_text = None, candidates = Some []\<rparr>" _ "[0x49]"
              "\<lambda>q. Inr \<lparr>response_text = None, candidates = Some []\<rparr>"
              "\<lparr>response_text = None, candidates = Some []\<rparr>"]
        generateSpeech_fails_iff_first_part_empty
          [of "Some [0x6B]"
              "\<lambda>k q. Inr \<lparr>response_text = None, candidates =
                 Some [Candidate (Some (Content (Some [Part None (Some (Blob (Some [0x41, 0x41, 0x41, 0x41])))])))]\<rparr>"
              _ "[0x49]"
              "\<lambda>q. Inr \<lparr>response_text = None, candidates =
                 Some [Candidate (Some (Content (Some [Part None (Some (Blob (Some [0x41, 0x41, 0x41, 0x41])))])))]\<rparr>"
              "\<lparr>response_text = None, candidates =
                 Some [Candidate (Some (Content (Some [Part None (Some (Blob (Some [0x41, 0x41, 0x41, 0x41])))])))]\<rparr>"
              "[0x41, 0x41, 0x41, 0x41]"]
        generateSpeech_fails_iff_first_part_empty
          [of None "\<lambda>k q. Inl (CollaboratorError 401)" "CollaboratorError 401" "[0x49]"]
  by (simp add: getAiClient_def falsy_def str_undefined_def first_inline_data_def first_of_def)

text \<open>
  A response whose first candidate has a text part followed by an audio part: an inline
  audio payload is present in the first candidate, and \<open>generateSpeech\<close> fails, in both
  modules, because it reads the first part only.
\<close>

theorem generateSpeech_ignores_later_parts:
  "spec_inline_audio_present
     \<lparr>response_text = None, candidates =
        Some [Candidate (Some (Content (Some
          [Part (Some [0x49]) None, Part None (Some (Blob (Some [0x41, 0x41, 0x41, 0x41])))])))]\<rparr>
   \<and> generateSpeech (Some [0x6B])
        (\<lambda>k q. Inr \<lparr>response_text = None, candidates =
           Some [Candidate (Some (Content (Some
             [Part (Some [0x49]) None, Part None (Some (Blob (Some [0x41, 0x41, 0x41, 0x41])))])))]\<rparr>)
        [0x49]
     = Inl AUDIO_DATA_EMPTY
   \<and> generateSpeech_services (Some [0x6B])
        (\<lambda>k q. Inr \<lparr>response_text = None, candidates =
           Some [Candidate (Some (Content (Some
             [Part (Some [0x49]) None, Part None (Some (Blob (Some [0x41, 0x41, 0x41, 0x41])))])))]\<rparr>)
        [0x49]
     = Inl Audio_generation_failed"
  by (simp add: spec_inline_audio_present_def generateSpeech_def generateSpeech_services_def
        getAiClient_def falsy_def str_undefined_def first_inline_data_def first_of_def)

subsection \<open>Base64\<close>

lemma unat_code_unit: "n < 65536 \<Longrightarrow> unat (of_nat n :: 16 word) = n"
  by (simp add: unat_of_nat take_bit_nat_eq_self)

lemma unat_base64_char:
  "n < 64 \<Longrightarrow> unat (base64_char n) =
     (if n < 26 then n + 65 else if n < 52 then n + 71 else if n < 62 then n - 4
      else if n = 62 then 43 else 47)"
  using unat_code_unit [of "n + 65"] unat_code_unit [of "n + 71"] unat_code_unit [of "n - 4"]
  by (simp add: base64_char_def del: of_nat_add of_nat_diff)

lemma byte_bound: "unat (a :: 8 word) < 256"
  using unsigned_less [of a, where 'a = nat] by simp

lemma join3:
  fixes a b c :: nat
  assumes "b < 256" and "c < 256"
  shows "((a * 256 + b) * 256 + c) div 65536 = a"
    and "((a * 256 + b) * 256 + c) div 256 mod 256 = b"
    and "((a * 256 + b) * 256 + c) mod 256 = c"
proof -
  have d: "((a * 256 + b) * 256 + c) div 256 = a * 256 + b"
    using assms by simp
  have "((a * 256 + b) * 256 + c) div 65536 = ((a * 256 + b) * 256 + c) div 256 div 256"
    by (simp add: div_mult2_eq [symmetric])
  then show "((a * 256 + b) * 256 + c) div 65536 = a"
    using assms d by simp
  show "((a * 256 + b) * 256 + c) div 256 mod 256 = b"
    using assms d by simp
  show "((a * 256 + b) * 256 + c) mod 256 = c"
    using assms by (simp only: mod_mult_self3 mod_less)
qed

lemma sextets4:
  fixes n :: nat
  shows "((n div 262144 * 64 + n div 4096 mod 64) * 64 + n div 64 mod 64) * 64 + n mod 64 = n"
proof -
  have a: "n div 4096 = n div 64 div 64" by (simp add: div_mult2_eq [symmetric])
  have b: "n div 262144 = n div 64 div 64 div 64" by (simp add: div_mult2_eq [symmetric])
  have "n div 64 div 64 div 64 * 64 + n div 64 div 64 mod 64 = n div 64 div 64" by simp
  moreover have "n div 64 div 64 * 64 + n div 64 mod 64 = n div 64" by simp
  moreover have "n div 64 * 64 + n mod 64 = n" by simp
  ultimately show ?thesis by (simp add: a b)
qed

lemma sextets3:
  fixes n :: nat
  shows "(n div 4096 * 64 + n div 64 mod 64) * 64 + n mod 64 = n"
proof -
  have a: "n div 4096 = n div 64 div 64" by (simp add: div_mult2_eq [symmetric])
  have "n div 64 div 64 * 64 + n div 64 mod 64 = n div 64" by simp
  moreover have "n div 64 * 64 + n mod 64 = n" by simp
  ultimately show ?thesis by (simp add: a)
qed

lemma join2:
  fixes a b :: nat
  assumes "b < 256"
  shows "(a * 256 + b) * 4 div 4 div 256 = a" and "(a * 256 + b) * 4 div 4 mod 256 = b"
  using assms by simp_all

lemma base64_value_char: "n < 64 \<Longrightarrow> base64_value (base64_char n) = Some n"
proof -
  assume n: "n < 64"
  consider "n < 26" | "26 \<le> n \<and> n < 52" | "52 \<le> n \<and> n < 62" | "n = 62" | "n = 63"
    using n by linarith
  then show ?thesis
  proof cases
    case 1
    then show ?thesis using n by (simp add: base64_value_def unat_base64_char)
  next
    case 2
    then show ?thesis using n by (simp add: base64_value_def unat_base64_char)
  next
    case 3
    define m where "m = n - 4"
    with 3 have "n = m + 4" "48 \<le> m" "m \<le> 57" by arith+
    then show ?thesis by (simp add: base64_value_def unat_base64_char)
  next
    case 4
    then show ?thesis by (simp add: base64_value_def unat_base64_char)
  next
    case 5
    then show ?thesis by (simp add: base64_value_def unat_base64_char)
  qed
qed

lemma base64_char_not_pad: "n < 64 \<Longrightarrow> base64_char n \<noteq> 0x3D"
proof
  assume n: "n < 64" and w: "base64_char n = 0x3D"
  from w have "base64_value (base64_char n) = None"
    by (simp add: base64_value_def)
  with n show False by (simp add: base64_value_char)
qed

lemma base64_char_not_whitespace: "n < 64 \<Longrightarrow> \<not> is_ascii_whitespace (base64_char n)"
proof
  assume n: "n < 64" and w: "is_ascii_whitespace (base64_char n)"
  from w have "base64_value (base64_char n) = None"
    by (auto simp: is_ascii_whitespace_def base64_value_def)
  with n show False by (simp add: base64_value_char)
qed

lemma pad_not_whitespace: "\<not> is_ascii_whitespace 0x3D"
  by (simp add: is_ascii_whitespace_def)

lemma sextets_of_bytes_bound: "s \<in> set (sextets_of_bytes bs) \<Longrightarrow> s < 64"
proof (induction bs arbitrary: s rule: sextets_of_bytes.induct)
  case (1 a b c rest)
  have "(unat a * 256 + unat b) * 256 + unat c < 64 * 262144"
    using byte_bound [of a] byte_bound [of b] byte_bound [of c] by simp
  then have "((unat a * 256 + unat b) * 256 + unat c) div 262144 < 64"
    by (rule less_mult_imp_div_less)
  with 1 show ?case by (auto simp: Let_def)
next
  case (2 a b)
  have "(unat a * 256 + unat b) * 4 < 64 * 4096"
    using byte_bound [of a] byte_bound [of b] by simp
  then have "((unat a * 256 + unat b) * 4) div 4096 < 64"
    by (rule less_mult_imp_div_less)
  with 2 show ?case by (auto simp: Let_def)
next
  case (3 a)
  have "unat a * 16 < 64 * 64"
    using byte_bound [of a] by simp
  then have "(unat a * 16) div 64 < 64"
    by (rule less_mult_imp_div_less)
  with 3 show ?case by (auto simp: Let_def)
next
  case 4
  then show ?case by simp
qed

lemma group4:
  "bytes_of_sextets (n div 262144 # n div 4096 mod 64 # n div 64 mod 64 # n mod 64 # rest)
     = n div 65536 # n div 256 mod 256 # n mod 256 # bytes_of_sextets rest"
  by (simp only: bytes_of_sextets.simps Let_def sextets4)

lemma group3:
  "bytes_of_sextets [n div 4096, n div 64 mod 64, n mod 64] = [n div 4 div 256, n div 4 mod 256]"
  by (simp only: bytes_of_sextets.simps Let_def sextets3)

lemma group2: "bytes_of_sextets [n div 64, n mod 64] = [n div 16]"
proof -
  have "n div 64 * 64 + n mod 64 = n" by simp
  then show ?thesis by (simp only: bytes_of_sextets.simps)
qed

lemma bytes_of_sextets_of_bytes: "bytes_of_sextets (sextets_of_bytes bs) = map unat bs"
proof (induction bs rule: sextets_of_bytes.induct)
  case (1 a b c rest)
  define n where "n = (unat a * 256 + unat b) * 256 + unat c"
  have j: "n div 65536 = unat a" "n div 256 mod 256 = unat b" "n mod 256 = unat c"
    unfolding n_def by (rule join3 [OF byte_bound byte_bound])+
  have "sextets_of_bytes (a # b # c # rest) =
          n div 262144 # n div 4096 mod 64 # n div 64 mod 64 # n mod 64 # sextets_of_bytes rest"
    unfolding n_def by (simp only: sextets_of_bytes.simps Let_def)
  then have "bytes_of_sextets (sextets_of_bytes (a # b # c # rest)) =
          unat a # unat b # unat c # bytes_of_sextets (sextets_of_bytes rest)"
    by (simp only: group4 j)
  with 1 show ?case by (simp only: list.map)
next
  case (2 a b)
  define n where "n = (unat a * 256 + unat b) * 4"
  have j: "n div 4 div 256 = unat a" "n div 4 mod 256 = unat b"
    unfolding n_def by (rule join2 [OF byte_bound])+
  have "sextets_of_bytes [a, b] = [n div 4096, n div 64 mod 64, n mod 64]"
    unfolding n_def by (simp only: sextets_of_bytes.simps Let_def)
  then show ?case by (simp only: group3 j list.map)
next
  case (3 a)
  define n where "n = unat a * 16"
  have j: "n div 16 = unat a" unfolding n_def by simp
  have "sextets_of_bytes [a] = [n div 64, n mod 64]"
    unfolding n_def by (simp only: sextets_of_bytes.simps Let_def)
  then show ?case by (simp only: group2 j list.map)
next
  case 4
  show ?case by simp
qed

lemma length_sextets_of_bytes:
  "length (sextets_of_bytes bs) =
     length bs div 3 * 4 + (if length bs mod 3 = 0 then 0 else length bs mod 3 + 1)"
  by (induction bs rule: sextets_of_bytes.induct) (simp_all add: Let_def)

lemma length_sextets_mod4:
  "length (sextets_of_bytes bs) mod 4 = (if length bs mod 3 = 0 then 0 else length bs mod 3 + 1)"
proof -
  let ?r = "if length bs mod 3 = 0 then 0 else length bs mod 3 + 1"
  have "(length bs div 3 * 4 + ?r) mod 4 = ?r mod 4"
    by (rule mod_mult_self3)
  moreover have "?r < 4" by simp
  ultimately show ?thesis by (simp only: length_sextets_of_bytes mod_less)
qed

lemma those_map_Some: "those (map Some xs) = Some xs"
  by (induction xs) simp_all

lemma base64_values_of_chars:
  "\<forall>s \<in> set sx. s < 64 \<Longrightarrow> map base64_value (map base64_char sx) = map Some sx"
  by (induction sx) (simp_all add: base64_value_char)

lemma filter_whitespace_encoded:
  "\<forall>s \<in> set sx. s < 64 \<Longrightarrow>
   filter (\<lambda>c. \<not> is_ascii_whitespace c) (map base64_char sx @ replicate k 0x3D)
     = map base64_char sx @ replicate k 0x3D"
  by (rule filter_True) (auto simp: base64_char_not_whitespace pad_not_whitespace)

lemma last_body_not_pad:
  "\<forall>s \<in> set sx. s < 64 \<Longrightarrow> sx \<noteq> [] \<Longrightarrow> last (map base64_char sx) \<noteq> 0x3D"
  by (simp add: last_map base64_char_not_pad)

lemma remove_padding_0:
  "\<forall>s \<in> set sx. s < 64 \<Longrightarrow> remove_padding (map base64_char sx) = map base64_char sx"
  using last_body_not_pad [of sx] by (auto simp: remove_padding_def)

lemma remove_padding_1:
  assumes "\<forall>s \<in> set sx. s < 64" and "length sx mod 4 = 3"
  shows "remove_padding (map base64_char sx @ [0x3D]) = map base64_char sx"
proof -
  from assms(2) have ne: "sx \<noteq> []" by auto
  have len: "length (map base64_char sx @ [0x3D]) mod 4 = 0"
    using assms(2) by (simp add: mod_Suc)
  have "butlast (map base64_char sx @ [0x3D]) = map base64_char sx" by simp
  then show ?thesis
    unfolding remove_padding_def using len last_body_not_pad [OF assms(1) ne] ne
    by (simp del: length_append length_map)
qed

lemma remove_padding_2:
  assumes "\<forall>s \<in> set sx. s < 64" and "length sx mod 4 = 2"
  shows "remove_padding (map base64_char sx @ [0x3D, 0x3D]) = map base64_char sx"
proof -
  have len: "length (map base64_char sx @ [0x3D, 0x3D]) mod 4 = 0"
    using assms(2) by (simp add: mod_Suc)
  have b1: "butlast (map base64_char sx @ [0x3D, 0x3D]) = map base64_char sx @ [0x3D]"
    by (simp add: butlast_append)
  have b2: "butlast (map base64_char sx @ [0x3D]) = map base64_char sx" by simp
  show ?thesis
    unfolding remove_padding_def using len b1 b2
    by (simp del: length_append length_map butlast_snoc)
qed

lemma remove_padding_encoded:
  "remove_padding (map base64_char (sextets_of_bytes bs)
      @ replicate ((3 - length bs mod 3) mod 3) 0x3D)
     = map base64_char (sextets_of_bytes bs)"
proof -
  have bd: "\<forall>s \<in> set (sextets_of_bytes bs). s < 64"
    by (simp add: sextets_of_bytes_bound)
  consider "length bs mod 3 = 0" | "length bs mod 3 = 1" | "length bs mod 3 = 2"
    by linarith
  then show ?thesis
  proof cases
    case 1
    then show ?thesis using remove_padding_0 [OF bd] by simp
  next
    case 2
    then have "length (sextets_of_bytes bs) mod 4 = 2"
      by (simp add: length_sextets_mod4)
    then show ?thesis using 2 remove_padding_2 [OF bd]
      by (simp add: numeral_2_eq_2)
  next
    case 3
    then have "length (sextets_of_bytes bs) mod 4 = 3"
      by (simp add: length_sextets_mod4)
    then show ?thesis using 3 remove_padding_1 [OF bd] by simp
  qed
qed

lemma length_sextets_not_1: "length (sextets_of_bytes bs) mod 4 \<noteq> 1"
proof -
  consider "length bs mod 3 = 0" | "length bs mod 3 = 1" | "length bs mod 3 = 2"
    by linarith
  then show ?thesis
    by cases (simp_all add: length_sextets_mod4)
qed

lemma atob_base64_encode:
  "atob (base64_encode bs) = Inr (map of_nat (map unat bs))"
proof -
  have bd: "\<forall>s \<in> set (sextets_of_bytes bs). s < 64"
    by (simp add: sextets_of_bytes_bound)
  have d: "remove_padding (filter (\<lambda>c. \<not> is_ascii_whitespace c) (base64_encode bs))
          = map base64_char (sextets_of_bytes bs)"
    unfolding base64_encode_def
    by (simp only: filter_whitespace_encoded [OF bd] remove_padding_encoded)
  have t: "those (map base64_value (map base64_char (sextets_of_bytes bs)))
          = Some (sextets_of_bytes bs)"
    by (simp only: base64_values_of_chars [OF bd] those_map_Some)
  have n: "(length (map base64_char (sextets_of_bytes bs)) mod 4 = 1) = False"
    using length_sextets_not_1 [of bs] by (simp only: length_map)
  show ?thesis
    by (simp only: atob_def Let_def d t n if_False option.case bytes_of_sextets_of_bytes)
qed

lemma length_decodeBase64_loop:
  "length (decodeBase64_loop s len i bytes) = length bytes"
proof (induction s len i bytes rule: decodeBase64_loop.induct)
  case (1 s len i bytes)
  then show ?case
    by (subst decodeBase64_loop.simps) (simp add: typed_set_def)
qed

lemma decodeBase64_loop_copies:
  "length bytes = length s \<Longrightarrow> len = length s \<Longrightarrow>
   decodeBase64_loop s len i bytes = take i bytes @ map ucast (drop i s)"
proof (induction s len i bytes rule: decodeBase64_loop.induct)
  case (1 s len i bytes)
  show ?case
  proof (cases "i < len")
    case True
    let ?b = "typed_set bytes i (to_uint8 (charCodeAt s i))"
    have b: "?b = bytes[i := ucast (s ! i)]"
      using True 1(2,3) by (simp add: typed_set_def typed_get_def to_uint8_def charCodeAt_def)
    have "decodeBase64_loop s len i bytes = decodeBase64_loop s len (i + 1) ?b"
      using True by (subst decodeBase64_loop.simps) simp
    also have "\<dots> = take (i + 1) ?b @ map ucast (drop (i + 1) s)"
      using True 1 by (simp add: typed_set_def)
    also have "\<dots> = take i bytes @ map ucast (drop i s)"
      using True 1(2,3) unfolding b
      by (simp add: take_Suc_conv_app_nth Cons_nth_drop_Suc [symmetric])
    finally show ?thesis .
  next
    case False
    then show ?thesis using 1(2,3) by (subst decodeBase64_loop.simps) simp
  qed
qed

lemma ucast_byte_code_unit: "(ucast (of_nat (unat b) :: 16 word) :: 8 word) = b"
proof -
  have "(of_nat (unat b) :: 16 word) = ucast b" by (rule of_nat_unat)
  moreover have "(ucast (ucast b :: 16 word) :: 8 word) = b"
    by (rule ucast_up_ucast_id) (simp add: is_up)
  ultimately show ?thesis by (simp only:)
qed

text \<open>
  C9. For every byte sequence, \<open>decodeBase64\<close> of its base64 encoding is that byte
  sequence.
\<close>

theorem decodeBase64_base64_encode: "decodeBase64 (base64_encode bs) = Inr bs"
proof -
  let ?s = "map of_nat (map unat bs) :: 16 word list"
  have m: "map (\<lambda>c. ucast c :: 8 word) ?s = bs"
    by (induction bs) (simp_all only: list.map ucast_byte_code_unit)
  have "decodeBase64_loop ?s (length ?s) 0 (replicate (length ?s) 0)
          = take 0 (replicate (length ?s) 0) @ map ucast (drop 0 ?s)"
    by (rule decodeBase64_loop_copies) simp_all
  then have l: "decodeBase64_loop ?s (length ?s) 0 (replicate (length ?s) 0) = bs"
    using m by (simp only: take_0 drop_0 append_Nil)
  have "decodeBase64 (base64_encode bs)
          = Inr (decodeBase64_loop ?s (length ?s) 0 (replicate (length ?s) 0))"
    by (simp only: decodeBase64_def atob_base64_encode sum.case Let_def)
  with l show ?thesis by (simp only:)
qed

subsection \<open>PCM decoding\<close>

lemma length_int16_le: "length (int16_le bs) = length bs div 2"
  by (induction bs rule: int16_le.induct) simp_all

lemma nth_int16_le:
  "k < length bs div 2 \<Longrightarrow>
   int16_le bs ! k = push_bit 8 (ucast (bs ! (2 * k + 1))) OR ucast (bs ! (2 * k))"
proof (induction bs arbitrary: k rule: int16_le.induct)
  case (1 lo hi rest)
  then show ?case by (cases k) simp_all
qed simp_all

lemma to_unsigned_long_js_div:
  "0 < n \<Longrightarrow> to_unsigned_long (js_div a n) = a div n"
  by (simp add: to_unsigned_long_def js_div_def floor_divide_of_nat_eq)

lemma frame_in_range:
  fixes j a n :: nat
  assumes "j < a div n"
  shows "(of_nat j :: rat) < of_nat a / of_nat n"
proof -
  from assms have n: "0 < n" by (cases n) simp_all
  from assms have "Suc j \<le> a div n" by simp
  then have "Suc j * n \<le> a" using n by (simp add: less_eq_div_iff_mult_less_eq)
  then have "j * n < a" using n by simp
  then have "(of_nat (j * n) :: rat) < of_nat a" by (simp only: of_nat_less_iff)
  then have "(of_nat j :: rat) * of_nat n < of_nat a" by simp
  then show ?thesis using n by (simp add: pos_less_divide_eq)
qed

lemma sample_index_in_range:
  fixes j a n c :: nat
  assumes "j < a div n" and "c < n"
  shows "j * n + c < a"
proof -
  from assms have n: "0 < n" by simp
  from assms have "Suc j \<le> a div n" by simp
  then have "Suc j * n \<le> a" using n by (simp add: less_eq_div_iff_mult_less_eq)
  then show ?thesis using assms(2) by simp
qed

lemma length_frame_loop:
  "length (frame_loop raw fc n ch i cd) = length cd"
proof (induction raw fc n ch i cd rule: frame_loop.induct)
  case (1 raw fc n ch i cd)
  then show ?case
    by (subst frame_loop.simps) (simp add: typed_set_def)
qed

lemma nth_frame_loop:
  "j < length cd \<Longrightarrow>
   frame_loop raw fc n ch i cd ! j =
     (if i \<le> j \<and> of_nat j < fc then sample_of (typed_get raw (j * n + ch)) else cd ! j)"
proof (induction raw fc n ch i cd rule: frame_loop.induct)
  case (1 raw fc n ch i cd)
  show ?case
  proof (cases "of_nat i < fc")
    case True
    let ?cd = "typed_set cd i (sample_of (typed_get raw (i * n + ch)))"
    have len: "j < length ?cd" using 1(2) by (simp add: typed_set_def)
    have "frame_loop raw fc n ch i cd ! j = frame_loop raw fc n ch (i + 1) ?cd ! j"
      using True by (subst frame_loop.simps) simp
    also have "\<dots> = (if i + 1 \<le> j \<and> of_nat j < fc
                       then sample_of (typed_get raw (j * n + ch)) else ?cd ! j)"
      using 1(1) [OF True len] .
    also have "\<dots> = (if i \<le> j \<and> of_nat j < fc
                       then sample_of (typed_get raw (j * n + ch)) else cd ! j)"
      using True 1(2) by (cases "j = i") (auto simp: typed_set_def)
    finally show ?thesis .
  next
    case False
    have "frame_loop raw fc n ch i cd = cd"
      using False by (subst frame_loop.simps) simp
    moreover have "\<not> (i \<le> j \<and> of_nat j < fc)"
    proof
      assume "i \<le> j \<and> of_nat j < fc"
      then have "(of_nat i :: rat) \<le> of_nat j" and "of_nat j < fc" by simp_all
      with False show False by simp
    qed
    ultimately show ?thesis by auto
  qed
qed

lemma channel_loop_result:
  "length (channels buffer) = n \<Longrightarrow>
   channel_loop raw fc n ch buffer =
     Inr (buffer\<lparr>channels :=
            map (\<lambda>c. if ch \<le> c then frame_loop raw fc n c 0 (channels buffer ! c)
                      else channels buffer ! c) [0..<n]\<rparr>)"
proof (induction raw fc n ch buffer rule: channel_loop.induct)
  case (1 raw fc n ch buffer)
  show ?case
  proof (cases "ch < n")
    case True
    let ?cd = "channels buffer ! ch"
    let ?b = "buffer\<lparr>channels := (channels buffer)[ch := frame_loop raw fc n ch 0 ?cd]\<rparr>"
    have g: "getChannelData buffer ch = Inr ?cd"
      using True 1(2) by (simp add: getChannelData_def)
    have len: "length (channels ?b) = n" using 1(2) by simp
    have "channel_loop raw fc n ch buffer = channel_loop raw fc n (ch + 1) ?b"
      using True g by (subst channel_loop.simps) simp
    also have "\<dots> = Inr (?b\<lparr>channels :=
            map (\<lambda>c. if ch + 1 \<le> c then frame_loop raw fc n c 0 (channels ?b ! c)
                      else channels ?b ! c) [0..<n]\<rparr>)"
      using 1(1) [OF True g len] .
    also have "map (\<lambda>c. if ch + 1 \<le> c then frame_loop raw fc n c 0 (channels ?b ! c)
                      else channels ?b ! c) [0..<n]
             = map (\<lambda>c. if ch \<le> c then frame_loop raw fc n c 0 (channels buffer ! c)
                      else channels buffer ! c) [0..<n]"
    proof (rule map_cong [OF refl])
      fix c assume "c \<in> set [0..<n]"
      then have c: "c < n" by simp
      show "(if ch + 1 \<le> c then frame_loop raw fc n c 0 (channels ?b ! c) else channels ?b ! c)
          = (if ch \<le> c then frame_loop raw fc n c 0 (channels buffer ! c) else channels buffer ! c)"
        using c True 1(2) by (cases "c = ch") auto
    qed
    finally show ?thesis by simp
  next
    case False
    have "map (\<lambda>c. if ch \<le> c then frame_loop raw fc n c 0 (channels buffer ! c)
                      else channels buffer ! c) [0..<n] = map (\<lambda>c. channels buffer ! c) [0..<n]"
      using False by (intro map_cong [OF refl]) auto
    also have "\<dots> = channels buffer"
      unfolding 1(2) [symmetric] by (rule map_nth)
    finally show ?thesis
      using False by (subst channel_loop.simps) simp
  qed
qed

lemma sample_bounds:
  fixes w :: "16 word"
  shows "- 1 \<le> (of_int (sint w) :: rat) / 32768" and "(of_int (sint w) :: rat) / 32768 < 1"
proof -
  have lo: "- 32768 \<le> sint w" using sint_ge [of w] by simp
  have hi: "sint w < 32768" using sint_lt [of w] by simp
  from lo have "(of_int (- 32768) :: rat) \<le> of_int (sint w)" by (simp only: of_int_le_iff)
  then show "- 1 \<le> (of_int (sint w) :: rat) / 32768" by simp
  from hi have "(of_int (sint w) :: rat) < of_int 32768" by (simp only: of_int_less_iff)
  then show "(of_int (sint w) :: rat) / 32768 < 1" by simp
qed

lemma decodeAudioData_frames:
  assumes "even (length data)" and "0 < n" and "n \<le> maxChannels ctx"
    and "minSampleRate ctx \<le> rate" and "rate \<le> maxSampleRate ctx"
    and "0 < length data div 2 div n"
  shows "decodeAudioData data ctx rate n =
           Inr \<lparr>buffer_sampleRate = rate,
                channels = map (\<lambda>c. frame_loop (int16_le data) (of_nat (length data div 2) / of_nat n) n c 0
                                    (replicate (length data div 2 div n) (Num 0))) [0..<n]\<rparr>"
proof -
  let ?raw = "int16_le data"
  let ?fc = "js_div (length ?raw) n"
  let ?b = "\<lparr>buffer_sampleRate = rate,
             channels = replicate n (replicate (length data div 2 div n) (Num 0))\<rparr>"
  have i: "Int16Array data = Inr ?raw" using assms(1) by (simp add: Int16Array_def)
  have u: "to_unsigned_long ?fc = length data div 2 div n"
    using assms(2) by (simp add: to_unsigned_long_js_div length_int16_le)
  have c: "createBuffer ctx n ?fc rate = Inr ?b"
    using assms unfolding createBuffer_def u by simp
  have f: "?fc = Some (of_nat (length data div 2) / of_nat n)"
    using assms(2) by (simp add: js_div_def length_int16_le)
  have l: "channel_loop ?raw (of_nat (length data div 2) / of_nat n) n 0 ?b =
        Inr (?b\<lparr>channels :=
            map (\<lambda>c. if 0 \<le> c then frame_loop ?raw (of_nat (length data div 2) / of_nat n) n c 0 (channels ?b ! c)
                      else channels ?b ! c) [0..<n]\<rparr>)"
    by (rule channel_loop_result) simp
  have m: "map (\<lambda>c. if 0 \<le> c then frame_loop ?raw (of_nat (length data div 2) / of_nat n) n c 0 (channels ?b ! c)
                      else channels ?b ! c) [0..<n]
         = map (\<lambda>c. frame_loop ?raw (of_nat (length data div 2) / of_nat n) n c 0
                                    (replicate (length data div 2 div n) (Num 0))) [0..<n]"
    by (rule map_cong [OF refl]) simp
  have "decodeAudioData data ctx rate n
          = channel_loop ?raw (of_nat (length data div 2) / of_nat n) n 0 ?b"
    unfolding decodeAudioData_def
    by (simp only: i f c [unfolded f] sum.case option.case Let_def)
  then show ?thesis unfolding l m by simp
qed

lemma decodeAudioData_no_frames:
  assumes "even (length data)" and "0 < n" and "length data div 2 div n = 0"
  shows "decodeAudioData data ctx rate n = Inl NotSupportedError"
proof -
  let ?raw = "int16_le data"
  let ?fc = "js_div (length ?raw) n"
  have i: "Int16Array data = Inr ?raw" using assms(1) by (simp add: Int16Array_def)
  have u: "to_unsigned_long ?fc = 0"
    using assms(2,3) by (simp add: to_unsigned_long_js_div length_int16_le)
  have c: "createBuffer ctx n ?fc rate = Inl NotSupportedError"
    unfolding createBuffer_def u by simp
  show ?thesis
    unfolding decodeAudioData_def by (simp only: i c sum.case Let_def)
qed

text \<open>
  C2 (as amended). For a byte buffer of even length, a channel count and a sample rate
  the context accepts: when the samples make at least one whole frame, \<open>decodeAudioData\<close>
  returns a buffer of \<open>numChannels\<close> channels whose frame count is the number of 16-bit
  samples divided by \<open>numChannels\<close>, the remainder dropped; when they make none (fewer
  samples than channels, or no sample), it fails with the \<open>NotSupportedError\<close> of
  \<open>createBuffer\<close>.
\<close>

theorem decodeAudioData_truncates:
  assumes "even (length data)" and "0 < numChannels" and "numChannels \<le> maxChannels ctx"
    and "minSampleRate ctx \<le> sampleRate" and "sampleRate \<le> maxSampleRate ctx"
  shows "(length data div 2 div numChannels = 0 \<longrightarrow>
            decodeAudioData data ctx sampleRate numChannels = Inl NotSupportedError)
       \<and> (0 < length data div 2 div numChannels \<longrightarrow>
            (\<exists>buffer. decodeAudioData data ctx sampleRate numChannels = Inr buffer
               \<and> length (channels buffer) = numChannels
               \<and> (\<forall>channelData \<in> set (channels buffer).
                     length channelData = length data div 2 div numChannels)))"
proof (intro conjI impI)
  assume "length data div 2 div numChannels = 0"
  with assms show "decodeAudioData data ctx sampleRate numChannels = Inl NotSupportedError"
    by (simp add: decodeAudioData_no_frames)
next
  assume "0 < length data div 2 div numChannels"
  with assms show "\<exists>buffer. decodeAudioData data ctx sampleRate numChannels = Inr buffer
               \<and> length (channels buffer) = numChannels
               \<and> (\<forall>channelData \<in> set (channels buffer).
                     length channelData = length data div 2 div numChannels)"
    by (auto simp: decodeAudioData_frames length_frame_loop)
qed

theorem decodeAudioData_truncates_witness:
  "\<exists>buffer. decodeAudioData [0x00, 0x80, 0xFF, 0x7F, 0x00, 0x40, 0xFF, 0xFF, 0x01, 0x00]
       \<lparr>ctx_state = Running, maxChannels = 32, minSampleRate = 8000, maxSampleRate = 96000\<rparr>
       24000 2 = Inr buffer
     \<and> length (channels buffer) = 2
     \<and> list_all (\<lambda>channelData. length channelData = 2) (channels buffer)"
  using decodeAudioData_truncates
          [of "[0x00, 0x80, 0xFF, 0x7F, 0x00, 0x40, 0xFF, 0xFF, 0x01, 0x00]" 2
              "\<lparr>ctx_state = Running, maxChannels = 32, minSampleRate = 8000, maxSampleRate = 96000\<rparr>"
              24000]
  by (auto simp: list_all_iff)

text \<open>
  One sample and two channels (and likewise no sample and one channel): the sample count
  does not divide by the channel count, and the decoder fails instead of truncating to
  an empty buffer, because \<open>createBuffer\<close> rejects a length of zero.
\<close>

theorem decodeAudioData_zero_frames_fails:
  "decodeAudioData [0x01, 0x02]
     \<lparr>ctx_state = Running, maxChannels = 32, minSampleRate = 8000, maxSampleRate = 96000\<rparr>
     24000 2 = Inl NotSupportedError
   \<and> decodeAudioData []
     \<lparr>ctx_state = Running, maxChannels = 32, minSampleRate = 8000, maxSampleRate = 96000\<rparr>
     24000 1 = Inl NotSupportedError"
  by (simp add: decodeAudioData_def Int16Array_def js_div_def createBuffer_def
        to_unsigned_long_def)

text \<open>
  C4. For a byte buffer of even length, a channel count and a sample rate the context
  accepts, a channel \<open>c\<close> and a frame \<open>i\<close> of the decoded buffer: decoding succeeds, and
  sample \<open>i\<close> of channel \<open>c\<close> is the little-endian 16-bit integer at sample index
  \<open>i * numChannels + c\<close> of the bytes, read in two's complement and divided by 32768, a
  number from -1 up to but not including 1.
\<close>

theorem decodeAudioData_samples:
  assumes "even (length data)" and "0 < numChannels" and "numChannels \<le> maxChannels ctx"
    and "minSampleRate ctx \<le> sampleRate" and "sampleRate \<le> maxSampleRate ctx"
    and "c < numChannels" and "i < length data div 2 div numChannels"
  shows "\<exists>buffer channelData rawInt16.
           decodeAudioData data ctx sampleRate numChannels = Inr buffer
         \<and> getChannelData buffer c = Inr channelData
         \<and> rawInt16 = push_bit 8 (ucast (data ! (2 * (i * numChannels + c) + 1)))
                        OR ucast (data ! (2 * (i * numChannels + c)))
         \<and> typed_get channelData i = Some (Num (of_int (sint (rawInt16 :: 16 word)) / 32768))
         \<and> - 1 \<le> (of_int (sint rawInt16) :: rat) / 32768
         \<and> (of_int (sint rawInt16) :: rat) / 32768 < 1"
proof -
  let ?raw = "int16_le data"
  let ?fc = "(of_nat (length data div 2) :: rat) / of_nat numChannels"
  let ?frames = "length data div 2 div numChannels"
  let ?cd = "frame_loop ?raw ?fc numChannels c 0 (replicate ?frames (Num 0))"
  let ?b = "\<lparr>buffer_sampleRate = sampleRate,
             channels = map (\<lambda>c. frame_loop ?raw ?fc numChannels c 0
                                    (replicate ?frames (Num 0))) [0..<numChannels]\<rparr>"
  let ?w = "push_bit 8 (ucast (data ! (2 * (i * numChannels + c) + 1)))
              OR ucast (data ! (2 * (i * numChannels + c))) :: 16 word"
  from assms(7) have pos: "0 < ?frames" by simp
  have d: "decodeAudioData data ctx sampleRate numChannels = Inr ?b"
    using assms(1-5) pos by (rule decodeAudioData_frames)
  have g: "getChannelData ?b c = Inr ?cd"
    using assms(6) by (simp add: getChannelData_def)
  have k: "i * numChannels + c < length data div 2"
    using assms(7,6) by (rule sample_index_in_range)
  have r: "typed_get ?raw (i * numChannels + c) = Some ?w"
    using k by (simp add: typed_get_def length_int16_le nth_int16_le)
  have "?cd ! i = (if 0 \<le> i \<and> of_nat i < ?fc
                   then sample_of (typed_get ?raw (i * numChannels + c))
                   else replicate ?frames (Num 0) ! i)"
    using assms(7) by (intro nth_frame_loop) simp
  then have "?cd ! i = Num (of_int (sint ?w) / 32768)"
    using frame_in_range [OF assms(7)] r by (simp add: sample_of_def)
  then have t: "typed_get ?cd i = Some (Num (of_int (sint ?w) / 32768))"
    using assms(7) by (simp add: typed_get_def length_frame_loop)
  from d g t sample_bounds [of ?w] show ?thesis by blast
qed

theorem decodeAudioData_samples_witness:
  "\<exists>buffer channelData.
       decodeAudioData [0x00, 0x80, 0xFF, 0x7F, 0x00, 0x40, 0xFF, 0xFF, 0x01, 0x00]
         \<lparr>ctx_state = Running, maxChannels = 32, minSampleRate = 8000, maxSampleRate = 96000\<rparr>
         24000 2 = Inr buffer
     \<and> getChannelData buffer 1 = Inr channelData
     \<and> typed_get channelData 1 = Some (Num (- 1 / 32768))"
  using decodeAudioData_samples
          [of "[0x00, 0x80, 0xFF, 0x7F, 0x00, 0x40, 0xFF, 0xFF, 0x01, 0x00]" 2
              "\<lparr>ctx_state = Running, maxChannels = 32, minSampleRate = 8000, maxSampleRate = 96000\<rparr>"
              24000 1 1]
  by simp

subsection \<open>Audio playback\<close>


lemma decodeBase64_invalid: "decodeBase64 [0x21] = Inl InvalidCharacterError"
  by code_simp

lemma decodeBase64_one_byte: "decodeBase64 [0x41, 0x41, 0x3D, 0x3D] = Inr [0x00]"
  by code_simp


lemma decodeAudioData_odd:
  "decodeAudioData [0x00]
     \<lparr>ctx_state = Running, maxChannels = 32, minSampleRate = 8000, maxSampleRate = 96000\<rparr> 24000 1
   = Inl RangeError"
  by (simp add: decodeAudioData_def Int16Array_def)


lemma started_try_stop:
  "i < length g \<Longrightarrow>
   (node_state (try_stop g r ! i) = Started) = (node_state (g ! i) = Started \<and> i \<noteq> r)"
  by (cases "i = r") (auto simp: try_stop_def node_stop_def typed_get_def)

lemma try_stop_fault: "node_stop g r = Inl e \<Longrightarrow> try_stop g r = g"
  by (simp add: try_stop_def)


















lemma pending_initAudio: "pending (initAudio fresh s) = pending s"
  by (simp add: initAudio_def Let_def split: option.split)






















lemma stopAudio_state: "audioState (stopAudio s) = IDLE"
  by (simp add: stopAudio_def Let_def split: option.split)

lemma stopAudio_ref: "audioSourceRef (stopAudio s) = None"
  by (simp add: stopAudio_def Let_def split: option.split)

lemma stopAudio_no_ref:
  "audioSourceRef s = None \<Longrightarrow> stopAudio s = s\<lparr>audioState := IDLE\<rparr>"
  by (simp add: stopAudio_def)

lemma stopAudio_fault:
  "audioSourceRef s = Some r \<Longrightarrow> node_stop (nodes s) r = Inl e \<Longrightarrow>
   stopAudio s = s\<lparr>audioSourceRef := None, audioState := IDLE\<rparr>"
  by (simp add: stopAudio_def try_stop_fault)

lemma stopAudio_stops:
  "audioSourceRef s = Some r \<Longrightarrow> r < length (nodes s) \<Longrightarrow>
   node_state (nodes (stopAudio s) ! r) \<noteq> Started"
  by (simp add: stopAudio_def started_try_stop)

text \<open>
  C7. \<open>stopAudio\<close> is defined on every state of the component, whatever the playback
  state and whether or not the ref holds a node: it leaves the state \<open>IDLE\<close> and the ref
  empty. With no node in the ref it changes nothing else; when \<open>stop()\<close> of the node
  throws, the fault is swallowed and nothing else changes; and the node of the ref is
  not started afterwards.
\<close>

theorem stopAudio_always_idle:
  "audioState (stopAudio s) = IDLE
   \<and> audioSourceRef (stopAudio s) = None
   \<and> (audioSourceRef s = None \<longrightarrow> stopAudio s = s\<lparr>audioState := IDLE\<rparr>)
   \<and> (audioSourceRef s = Some r \<and> node_stop (nodes s) r = Inl e \<longrightarrow>
        stopAudio s = s\<lparr>audioSourceRef := None, audioState := IDLE\<rparr>)
   \<and> (audioSourceRef s = Some r \<and> r < length (nodes s) \<longrightarrow>
        node_state (nodes (stopAudio s) ! r) \<noteq> Started)"
  using stopAudio_state [of s] stopAudio_ref [of s] stopAudio_no_ref [of s]
    stopAudio_fault [of s r e] stopAudio_stops [of s r]
  by blast

theorem stopAudio_always_idle_witness:
  "stopAudio initial = initial
   \<and> stopAudio \<lparr>chapterContent = [0x49], audioState = PLAYING, audioContextRef = None,
        audioSourceRef = Some 0,
        nodes = [\<lparr>node_buffer = None, node_connected = True, node_onended = True, node_state = Started\<rparr>],
        pending = 0, alerts = 0\<rparr>
     = \<lparr>chapterContent = [0x49], audioState = IDLE, audioContextRef = None,
        audioSourceRef = None,
        nodes = [\<lparr>node_buffer = None, node_connected = True, node_onended = True, node_state = Finished\<rparr>],
        pending = 0, alerts = 0\<rparr>
   \<and> stopAudio \<lparr>chapterContent = [0x49], audioState = ERROR, audioContextRef = None,
        audioSourceRef = Some 0,
        nodes = [\<lparr>node_buffer = None, node_connected = False, node_onended = False, node_state = Unscheduled\<rparr>],
        pending = 0, alerts = 1\<rparr>
     = \<lparr>chapterContent = [0x49], audioState = IDLE, audioContextRef = None,
        audioSourceRef = None,
        nodes = [\<lparr>node_buffer = None, node_connected = False, node_onended = False, node_state = Unscheduled\<rparr>],
        pending = 0, alerts = 1\<rparr>"
  using stopAudio_always_idle [of initial]
        stopAudio_always_idle
          [of "\<lparr>chapterContent = [0x49], audioState = PLAYING, audioContextRef = None,
                audioSourceRef = Some 0,
                nodes = [\<lparr>node_buffer = None, node_connected = True, node_onended = True, node_state = Started\<rparr>],
                pending = 0, alerts = 0\<rparr>" 0]
        stopAudio_always_idle
          [of "\<lparr>chapterContent = [0x49], audioState = ERROR, audioContextRef = None,
                audioSourceRef = Some 0,
                nodes = [\<lparr>node_buffer = None, node_connected = False, node_onended = False, node_state = Unscheduled\<rparr>],
                pending = 0, alerts = 1\<rparr>" 0 InvalidStateError]
  by (simp add: initial_def stopAudio_def try_stop_def node_stop_def typed_get_def)

lemma playAudio_resume_failed:
  assumes "0 < pending s" and "decode_speech (audioContextRef s) speech = Inl e"
  shows "playAudio_resume speech s =
           s\<lparr>pending := pending s - 1, audioState := ERROR, alerts := alerts s + 1\<rparr>"
  using assms by (simp add: playAudio_resume_def Let_def)

lemma decode_speech_fetch_failed: "decode_speech ctx (Inl e) = Inl e"
  by (simp add: decode_speech_def)

lemma decode_speech_base64_failed:
  "decodeBase64 base64 = Inl e \<Longrightarrow> decode_speech ctx (Inr base64) = Inl e"
  by (simp add: decode_speech_def)

lemma decode_speech_pcm_failed:
  "decodeBase64 base64 = Inr audioData \<Longrightarrow> decodeAudioData audioData c 24000 1 = Inl e \<Longrightarrow>
   decode_speech (Some c) (Inr base64) = Inl e"
  by (simp add: decode_speech_def)

text \<open>
  C8. When a call of \<open>playAudio\<close> is waiting and the chain fails at any of its three
  steps (\<open>generateSpeech\<close> rejects, \<open>decodeBase64\<close> throws, or \<open>decodeAudioData\<close> throws),
  the state becomes \<open>ERROR\<close>, one more alert is shown, and the source nodes, the ref and
  the context are what they were: no node is made, connected or started.
\<close>

theorem failed_playback_sets_error:
  assumes "0 < pending s"
    and "speech = Inl e
         \<or> (\<exists>base64. speech = Inr base64 \<and> decodeBase64 base64 = Inl e)
         \<or> (\<exists>base64 audioData c. speech = Inr base64 \<and> decodeBase64 base64 = Inr audioData
               \<and> audioContextRef s = Some c \<and> decodeAudioData audioData c 24000 1 = Inl e)"
  shows "audioState (playAudio_resume speech s) = ERROR
       \<and> alerts (playAudio_resume speech s) = alerts s + 1
       \<and> nodes (playAudio_resume speech s) = nodes s
       \<and> sessions (playAudio_resume speech s) = sessions s
       \<and> audioSourceRef (playAudio_resume speech s) = audioSourceRef s
       \<and> audioContextRef (playAudio_resume speech s) = audioContextRef s"
proof -
  have "decode_speech (audioContextRef s) speech = Inl e"
    using assms(2)
    by (auto simp: decode_speech_fetch_failed decode_speech_base64_failed decode_speech_pcm_failed)
  then have "playAudio_resume speech s =
           s\<lparr>pending := pending s - 1, audioState := ERROR, alerts := alerts s + 1\<rparr>"
    using assms(1) by (rule playAudio_resume_failed [rotated])
  then show ?thesis by (simp add: sessions_def)
qed


theorem failed_playback_sets_error_witness:
  "playAudio_resume (generateSpeech None (\<lambda>k q. Inl (CollaboratorError 401)) [0x49])
     \<lparr>chapterContent = [0x49], audioState = LOADING,
      audioContextRef = Some \<lparr>ctx_state = Running, maxChannels = 32, minSampleRate = 8000, maxSampleRate = 96000\<rparr>,
      audioSourceRef = None, nodes = [], pending = 1, alerts = 0\<rparr>
   = \<lparr>chapterContent = [0x49], audioState = ERROR,
      audioContextRef = Some \<lparr>ctx_state = Running, maxChannels = 32, minSampleRate = 8000, maxSampleRate = 96000\<rparr>,
      audioSourceRef = None, nodes = [], pending = 0, alerts = 1\<rparr>
   \<and> playAudio_resume (Inr [0x21])
     \<lparr>chapterContent = [0x49], audioState = LOADING,
      audioContextRef = Some \<lparr>ctx_state = Running, maxChannels = 32, minSampleRate = 8000, maxSampleRate = 96000\<rparr>,
      audioSourceRef = None, nodes = [], pending = 1, alerts = 0\<rparr>
   = \<lparr>chapterContent = [0x49], audioState = ERROR,
      audioContextRef = Some \<lparr>ctx_state = Running, maxChannels = 32, minSampleRate = 8000, maxSampleRate = 96000\<rparr>,
      audioSourceRef = None, nodes = [], pending = 0, alerts = 1\<rparr>
   \<and> playAudio_resume (Inr [0x41, 0x41, 0x3D, 0x3D])
     \<lparr>chapterContent = [0x49], audioState = LOADING,
      audioContextRef = Some \<lparr>ctx_state = Running, maxChannels = 32, minSampleRate = 8000, maxSampleRate = 96000\<rparr>,
      audioSourceRef = None, nodes = [], pending = 1, alerts = 0\<rparr>
   = \<lparr>chapterContent = [0x49], audioState = ERROR,
      audioContextRef = Some \<lparr>ctx_state = Running, maxChannels = 32, minSampleRate = 8000, maxSampleRate = 96000\<rparr>,
      audioSourceRef = None, nodes = [], pending = 0, alerts = 1\<rparr>"
  using failed_playback_sets_error
          [of "\<lparr>chapterContent = [0x49], audioState = LOADING,
                audioContextRef = Some \<lparr>ctx_state = Running, maxChannels = 32, minSampleRate = 8000, maxSampleRate = 96000\<rparr>,
                audioSourceRef = None, nodes = [], pending = 1, alerts = 0\<rparr>"
              "generateSpeech None (\<lambda>k q. Inl (CollaboratorError 401)) [0x49]" API_KEY_MISSING]
        failed_playback_sets_error
          [of "\<lparr>chapterContent = [0x49], audioState = LOADING,
                audioContextRef = Some \<lparr>ctx_state = Running, maxChannels = 32, minSampleRate = 8000, maxSampleRate = 96000\<rparr>,
                audioSourceRef = None, nodes = [], pending = 1, alerts = 0\<rparr>"
              "Inr [0x21]" InvalidCharacterError]
        failed_playback_sets_error
          [of "\<lparr>chapterContent = [0x49], audioState = LOADING,
                audioContextRef = Some \<lparr>ctx_state = Running, maxChannels = 32, minSampleRate = 8000, maxSampleRate = 96000\<rparr>,
                audioSourceRef = None, nodes = [], pending = 1, alerts = 0\<rparr>"
              "Inr [0x41, 0x41, 0x3D, 0x3D]" RangeError]
  by (simp add: generateSpeech_def getAiClient_def falsy_def playAudio_resume_def
        decode_speech_def decodeBase64_invalid decodeBase64_one_byte decodeAudioData_odd
        sessions_def Let_def del: One_nat_def)
end
